theory Spec2Isabelle
  imports Main "HOL-Library.Word"
begin

section \<open>Data model of \<^verbatim>\<open>client/rpc/eth.go\<close>\<close>

text \<open>
  The package is a facade over the JSON-RPC client of go-ethereum: seventeen methods of
  \<^verbatim>\<open>publicTransactionPool\<close>, each of which declares a result holder \<^verbatim>\<open>r\<close>, hands
  \<^verbatim>\<open>&r\<close> to \<^verbatim>\<open>pub.client.CallContext\<close> with a literal method name and the positional
  arguments, and returns \<^verbatim>\<open>r\<close> (or \<^verbatim>\<open>nil\<close>) with the error.

  Go types are modelled as follows.
  \<^item> \<^verbatim>\<open>common.Hash\<close> is \<^verbatim>\<open>[32]byte\<close> and \<^verbatim>\<open>common.Address\<close> is \<^verbatim>\<open>[20]byte\<close>:
    words of 256 and 160 bits. Their zero value is \<open>0\<close>; they have no nil.
  \<^item> \<^verbatim>\<open>hexutil.Uint64\<close> is \<^verbatim>\<open>uint64\<close>; \<^verbatim>\<open>hexutil.Uint\<close> is \<^verbatim>\<open>uint\<close> (64 bits on the
    usual targets). No operation computes with them.
  \<^item> \<^verbatim>\<open>hexutil.Big\<close> is \<^verbatim>\<open>big.Int\<close>: an unbounded integer.
  \<^item> a pointer \<^verbatim>\<open>*T\<close> is \<open>T option\<close>, with \<open>None\<close> for \<^verbatim>\<open>nil\<close>.
  \<^item> a slice \<^verbatim>\<open>[]T\<close> is \<open>T slice\<close>: Go tells the nil slice from an empty one.
  \<^item> a map \<^verbatim>\<open>map[string]interface{}\<close> is \<open>gomap\<close>, nil or a finite table.
\<close>

type_synonym Hash = "256 word"
type_synonym Address = "160 word"
type_synonym Uint = "64 word"
type_synonym Uint64 = "64 word"
type_synonym Big = int

datatype 'a slice = NilSlice | Slice "'a list"

type_synonym Bytes = "8 word slice"

text \<open>
  A value of \<^verbatim>\<open>interface{}\<close> as \<^verbatim>\<open>encoding/json\<close> produces it. A number is a
  \<^verbatim>\<open>float64\<close>, kept as its 64 bits; the facade never inspects any of these.
\<close>

datatype iface =
    INil
  | IBool bool
  | IFloat64 "64 word"
  | IString string
  | IArray "iface list"
  | IObject "(string \<times> iface) list"

datatype gomap = NilMap | Map "(string \<times> iface) list"

record SendTxArgs =
  From :: Address
  To :: Address
  Gas :: Big
  GasPrice :: Big
  Value :: Big
  Data :: Bytes
  Nonce :: Uint64

text \<open>
  \<^verbatim>\<open>types.Transaction\<close> belongs to go-ethereum; a value of it is identified here by its
  RLP encoding.
\<close>

datatype Transaction = Transaction "8 word list"

record SignTransactionResult =
  Raw :: Bytes
  Tx :: "Transaction option"

record RPCTransaction =
  BlockHash :: Hash
  BlockNumber :: "Big option"
  From :: Address
  Gas :: "Big option"
  GasPrice :: "Big option"
  Hash :: Hash
  Input :: Bytes
  Nonce :: Uint64
  To :: "Address option"
  TransactionIndex :: Uint
  Value :: "Big option"
  V :: "Big option"
  R :: "Big option"
  S :: "Big option"

section \<open>The transport\<close>

text \<open>
  \<^verbatim>\<open>context.Context\<close> is opaque to the facade, which only hands it on; a context is
  identified by a number. An \<^verbatim>\<open>error\<close> is whatever the transport reports: a network
  failure, the error object of a JSON-RPC response (code and message), or a response
  that does not fit the result holder.
\<close>

datatype Context = Ctx nat

datatype error =
    NetworkError string
  | RPCError int string
  | DecodeError string

text \<open>The values the facade passes in \<^verbatim>\<open>args ...interface{}\<close>.\<close>

datatype arg =
    AString string
  | AHash Hash
  | AAddress Address
  | AUint Uint
  | ABytes Bytes
  | ABig Big
  | ASendTxArgs SendTxArgs

text \<open>One invocation of \<^verbatim>\<open>CallContext\<close>, as the transport sees it.\<close>

record call =
  callctx :: Context
  method_name :: string
  params :: "arg list"

text \<open>
  \<^verbatim>\<open>(*rpc.Client).CallContext(ctx, result, method, args...)\<close> is go-ethereum's and is a
  parameter of the model. What it does at a holder of type \<open>'r\<close> is a function of the
  context, the holder's content, the method name, the arguments and the state \<open>'w\<close> of
  the connection and of the node behind it; it gives the error (\<open>None\<close> for \<^verbatim>\<open>nil\<close>), the
  holder's content after the call, and the new state. Nothing is assumed of it: it may
  fail and still have written to the holder.

  Go passes the holder as \<^verbatim>\<open>interface{}\<close> and the client writes to it by reflection, at
  the holder's own type. The facade uses eight holder types, so a client is eight such
  functions.

  \<open>CallContext\<close> below is one invocation of it: it asks the client for the outcome and
  adds the invocation to the calls the state has recorded, so that what the facade
  sends, and how often, can be stated.
\<close>

type_synonym ('r, 'w) callfn =
  "Context \<Rightarrow> 'r \<Rightarrow> string \<Rightarrow> arg list \<Rightarrow> 'w \<Rightarrow> (error option \<times> 'r) \<times> 'w"

record 'w Client =
  into_UintPtr :: "(Uint option, 'w) callfn"
  into_Uint64Ptr :: "(Uint64 option, 'w) callfn"
  into_TxPtr :: "(RPCTransaction option, 'w) callfn"
  into_SignTxPtr :: "(SignTransactionResult option, 'w) callfn"
  into_Bytes :: "(Bytes, 'w) callfn"
  into_Hash :: "(Hash, 'w) callfn"
  into_Map :: "(gomap, 'w) callfn"
  into_Txs :: "(RPCTransaction option slice, 'w) callfn"

record 'w publicTransactionPool =
  client :: "'w Client"

record 'w eth =
  PublicTransactionPool :: "'w publicTransactionPool"

text \<open>
  The state an operation runs in: the facade object \<^verbatim>\<open>pub\<close> (its receiver), the calls
  the transport has received so far, oldest first, and the state of the connection
  and node.
\<close>

record 'w state =
  pool :: "'w publicTransactionPool"
  calls :: "call list"
  net :: 'w

definition CallContext ::
  "('r, 'w) callfn \<Rightarrow> Context \<Rightarrow> 'r \<Rightarrow> string \<Rightarrow> arg list \<Rightarrow> 'w state
     \<Rightarrow> (error option \<times> 'r) \<times> 'w state" where
  "CallContext f ctx r m args s =
     (case f ctx r m args (net s) of
        ((err, r'), n') \<Rightarrow>
          ((err, r'),
           s\<lparr>calls := calls s @ [\<lparr>callctx = ctx, method_name = m, params = args\<rparr>], net := n'\<rparr>))"

section \<open>The facade\<close>

text \<open>
  Every method of \<^verbatim>\<open>publicTransactionPool\<close> has the same three steps, and its definition
  keeps them: \<^verbatim>\<open>var r T\<close> is the zero value of the holder (\<open>None\<close>, \<open>NilSlice\<close>, \<open>NilMap\<close>
  or the hash \<open>0\<close>), handed to \<open>CallContext\<close> with the client read from the receiver,
  the literal method name and the arguments in the order written; then
  \<^verbatim>\<open>if err != nil\<close> returns either \<^verbatim>\<open>nil, err\<close> or \<^verbatim>\<open>r, err\<close>, as that method has it, and
  otherwise \<^verbatim>\<open>r, nil\<close>. A result is the pair of the value and the error.
  \<^verbatim>\<open>GetRawTransaction\<close> is a method of the concrete type only; the interface
  \<^verbatim>\<open>PublicTransactionPool\<close> does not declare it.
\<close>

definition NewPublicTransactionPool :: "'w Client \<Rightarrow> 'w publicTransactionPool" where
  "NewPublicTransactionPool cl = \<lparr>client = cl\<rparr>"

definition NewEth :: "'w Client \<Rightarrow> 'w eth" where
  "NewEth cl = \<lparr>PublicTransactionPool = NewPublicTransactionPool cl\<rparr>"

definition GetBlockTransactionCountByNumber ::
  "Context \<Rightarrow> string \<Rightarrow> 'w state \<Rightarrow> (Uint option \<times> error option) \<times> 'w state" where
  "GetBlockTransactionCountByNumber ctx blockNr s =
     (case CallContext (into_UintPtr (client (pool s))) ctx None
             ''eth_getBlockTransactionCountByNumber'' [AString blockNr] s of
        ((err, r), s') \<Rightarrow>
          if err \<noteq> None then ((None, err), s') else ((r, None), s'))"

definition GetBlockTransactionCountByHash ::
  "Context \<Rightarrow> Hash \<Rightarrow> 'w state \<Rightarrow> (Uint option \<times> error option) \<times> 'w state" where
  "GetBlockTransactionCountByHash ctx blockHash s =
     (case CallContext (into_UintPtr (client (pool s))) ctx None
             ''eth_getBlockTransactionCountByHash'' [AHash blockHash] s of
        ((err, r), s') \<Rightarrow>
          if err \<noteq> None then ((None, err), s') else ((r, None), s'))"

definition GetTransactionByBlockNumberAndIndex ::
  "Context \<Rightarrow> string \<Rightarrow> Uint \<Rightarrow> 'w state
     \<Rightarrow> (RPCTransaction option \<times> error option) \<times> 'w state" where
  "GetTransactionByBlockNumberAndIndex ctx blockNr index s =
     (case CallContext (into_TxPtr (client (pool s))) ctx None
             ''eth_getTransactionByBlockNumberAndIndex'' [AString blockNr, AUint index] s of
        ((err, r), s') \<Rightarrow>
          if err \<noteq> None then ((None, err), s') else ((r, None), s'))"

definition GetTransactionByBlockHashAndIndex ::
  "Context \<Rightarrow> Hash \<Rightarrow> Uint \<Rightarrow> 'w state
     \<Rightarrow> (RPCTransaction option \<times> error option) \<times> 'w state" where
  "GetTransactionByBlockHashAndIndex ctx blockHash index s =
     (case CallContext (into_TxPtr (client (pool s))) ctx None
             ''eth_getTransactionByBlockNumberAndIndex'' [AHash blockHash, AUint index] s of
        ((err, r), s') \<Rightarrow>
          if err \<noteq> None then ((None, err), s') else ((r, None), s'))"

definition GetRawTransactionByBlockNumberAndIndex ::
  "Context \<Rightarrow> string \<Rightarrow> Uint \<Rightarrow> 'w state \<Rightarrow> (Bytes \<times> error option) \<times> 'w state" where
  "GetRawTransactionByBlockNumberAndIndex ctx blockNr index s =
     (case CallContext (into_Bytes (client (pool s))) ctx NilSlice
             ''eth_getRawTransactionByBlockNumberAndIndex'' [AString blockNr, AUint index] s of
        ((err, r), s') \<Rightarrow>
          if err \<noteq> None then ((r, err), s') else ((r, None), s'))"

definition GetRawTransactionByBlockHashAndIndex ::
  "Context \<Rightarrow> Hash \<Rightarrow> Uint \<Rightarrow> 'w state \<Rightarrow> (Bytes \<times> error option) \<times> 'w state" where
  "GetRawTransactionByBlockHashAndIndex ctx blockHash index s =
     (case CallContext (into_Bytes (client (pool s))) ctx NilSlice
             ''eth_getRawTransactionByBlockHashAndIndex'' [AHash blockHash, AUint index] s of
        ((err, r), s') \<Rightarrow>
          if err \<noteq> None then ((r, err), s') else ((r, None), s'))"

definition GetTransactionCount ::
  "Context \<Rightarrow> Address \<Rightarrow> string \<Rightarrow> 'w state \<Rightarrow> (Uint64 option \<times> error option) \<times> 'w state" where
  "GetTransactionCount ctx address blockNr s =
     (case CallContext (into_Uint64Ptr (client (pool s))) ctx None
             ''eth_getTransactionCount'' [AAddress address, AString blockNr] s of
        ((err, r), s') \<Rightarrow>
          if err \<noteq> None then ((None, err), s') else ((r, None), s'))"

definition GetTransactionByHash ::
  "Context \<Rightarrow> Hash \<Rightarrow> 'w state \<Rightarrow> (RPCTransaction option \<times> error option) \<times> 'w state" where
  "GetTransactionByHash ctx hash s =
     (case CallContext (into_TxPtr (client (pool s))) ctx None
             ''eth_getTransactionByHash'' [AHash hash] s of
        ((err, r), s') \<Rightarrow>
          if err \<noteq> None then ((None, err), s') else ((r, None), s'))"

definition GetRawTransactionByHash ::
  "Context \<Rightarrow> Hash \<Rightarrow> 'w state \<Rightarrow> (Bytes \<times> error option) \<times> 'w state" where
  "GetRawTransactionByHash ctx hash s =
     (case CallContext (into_Bytes (client (pool s))) ctx NilSlice
             ''eth_getRawTransactionByHash'' [AHash hash] s of
        ((err, r), s') \<Rightarrow>
          if err \<noteq> None then ((r, err), s') else ((r, None), s'))"

definition GetTransactionReceipt ::
  "Context \<Rightarrow> Hash \<Rightarrow> 'w state \<Rightarrow> (gomap \<times> error option) \<times> 'w state" where
  "GetTransactionReceipt ctx hash s =
     (case CallContext (into_Map (client (pool s))) ctx NilMap
             ''eth_getTransactionReceipt'' [AHash hash] s of
        ((err, r), s') \<Rightarrow>
          if err \<noteq> None then ((r, err), s') else ((r, None), s'))"

definition SendTransaction ::
  "Context \<Rightarrow> SendTxArgs \<Rightarrow> 'w state \<Rightarrow> (Hash \<times> error option) \<times> 'w state" where
  "SendTransaction ctx args s =
     (case CallContext (into_Hash (client (pool s))) ctx 0
             ''eth_sendTransaction'' [ASendTxArgs args] s of
        ((err, r), s') \<Rightarrow>
          if err \<noteq> None then ((r, err), s') else ((r, None), s'))"

definition SendRawTransaction ::
  "Context \<Rightarrow> Bytes \<Rightarrow> 'w state \<Rightarrow> (Hash \<times> error option) \<times> 'w state" where
  "SendRawTransaction ctx encodedTx s =
     (case CallContext (into_Hash (client (pool s))) ctx 0
             ''eth_sendRawTransaction'' [ABytes encodedTx] s of
        ((err, r), s') \<Rightarrow>
          if err \<noteq> None then ((r, err), s') else ((r, None), s'))"

definition Sign ::
  "Context \<Rightarrow> Address \<Rightarrow> Bytes \<Rightarrow> 'w state \<Rightarrow> (Bytes \<times> error option) \<times> 'w state" where
  "Sign ctx addr data s =
     (case CallContext (into_Bytes (client (pool s))) ctx NilSlice
             ''eth_sign'' [AAddress addr, ABytes data] s of
        ((err, r), s') \<Rightarrow>
          if err \<noteq> None then ((NilSlice, err), s') else ((r, None), s'))"

definition Resend ::
  "Context \<Rightarrow> SendTxArgs \<Rightarrow> Big \<Rightarrow> Big \<Rightarrow> 'w state \<Rightarrow> (Hash \<times> error option) \<times> 'w state" where
  "Resend ctx sendArgs gasPrice gasLimit s =
     (case CallContext (into_Hash (client (pool s))) ctx 0
             ''eth_resend'' [ASendTxArgs sendArgs, ABig gasPrice, ABig gasLimit] s of
        ((err, r), s') \<Rightarrow>
          if err \<noteq> None then ((r, err), s') else ((r, None), s'))"

definition SignTransaction ::
  "Context \<Rightarrow> SendTxArgs \<Rightarrow> 'w state
     \<Rightarrow> (SignTransactionResult option \<times> error option) \<times> 'w state" where
  "SignTransaction ctx args s =
     (case CallContext (into_SignTxPtr (client (pool s))) ctx None
             ''eth_signTransaction'' [ASendTxArgs args] s of
        ((err, r), s') \<Rightarrow>
          if err \<noteq> None then ((None, err), s') else ((r, None), s'))"

definition GetRawTransaction ::
  "Context \<Rightarrow> Hash \<Rightarrow> 'w state \<Rightarrow> (Bytes \<times> error option) \<times> 'w state" where
  "GetRawTransaction ctx hash s =
     (case CallContext (into_Bytes (client (pool s))) ctx NilSlice
             ''eth_getRawTransactionByHash'' [AHash hash] s of
        ((err, r), s') \<Rightarrow>
          if err \<noteq> None then ((r, err), s') else ((r, None), s'))"

definition PendingTransactions ::
  "Context \<Rightarrow> 'w state \<Rightarrow> (RPCTransaction option slice \<times> error option) \<times> 'w state" where
  "PendingTransactions ctx s =
     (case CallContext (into_Txs (client (pool s))) ctx NilSlice
             ''eth_pendingTransactions'' [] s of
        ((err, r), s') \<Rightarrow>
          if err \<noteq> None then ((r, err), s') else ((r, None), s'))"

section \<open>The JSON form of a transaction record\<close>

text \<open>
  \<^verbatim>\<open>RPCTransaction\<close> has no codec of its own: \<^verbatim>\<open>encoding/json\<close> derives one from the
  declared field types and the \<^verbatim>\<open>json:"..."\<close> tags, none of which says \<^verbatim>\<open>omitempty\<close>, and
  calls the \<^verbatim>\<open>MarshalText\<close> and \<^verbatim>\<open>UnmarshalJSON\<close> methods that go-ethereum's \<^verbatim>\<open>hexutil\<close>
  and \<^verbatim>\<open>common\<close> give those types. The JSON value under a key is either \<open>JNull\<close> or
  \<open>JHex v\<close>, the hex string that \<^verbatim>\<open>hexutil\<close> writes for \<open>v\<close> (for a negative integer that
  is a string like \<^verbatim>\<open>-0x5\<close>). The hex syntax itself is not modelled, and neither are keys
  that are absent, strings that are no such encoding, or values of another JSON kind.

  What the field types select:
  \<^item> a field of pointer type \<^verbatim>\<open>*T\<close> is written as \<^verbatim>\<open>null\<close> when it is nil and as the
    pointee otherwise, and \<^verbatim>\<open>null\<close> is read into it as nil;
  \<^item> a field of a value type is written as its value, never as \<^verbatim>\<open>null\<close>, and reading
    \<^verbatim>\<open>null\<close> into it fails: its \<^verbatim>\<open>UnmarshalJSON\<close> refuses what is not a string;
  \<^item> \<^verbatim>\<open>hexutil.Big\<close> writes any integer, but reads only those from \<open>0\<close> to \<open>2^256 - 1\<close>:
    a string without the prefix \<^verbatim>\<open>0x\<close> and one of more than 64 hex digits are refused.
\<close>

datatype 'a json = JNull | JHex 'a

record RPCTransactionJSON =
  json_blockHash :: "Hash json"
  json_blockNumber :: "Big json"
  json_from :: "Address json"
  json_gas :: "Big json"
  json_gasPrice :: "Big json"
  json_hash :: "Hash json"
  json_input :: "8 word list json"
  json_nonce :: "Uint64 json"
  json_to :: "Address json"
  json_transactionIndex :: "Uint json"
  json_value :: "Big json"
  json_v :: "Big json"
  json_r :: "Big json"
  json_s :: "Big json"

fun marshal_pointer :: "'a option \<Rightarrow> 'a json" where
  "marshal_pointer None = JNull"
| "marshal_pointer (Some x) = JHex x"

definition marshal_value :: "'a \<Rightarrow> 'a json" where
  "marshal_value x = JHex x"

text \<open>The error of \<^verbatim>\<open>hexutil\<close> for a JSON value that is not a string, at the type \<open>ty\<close>.\<close>

definition non_string :: "string \<Rightarrow> error" where
  "non_string ty =
     DecodeError (''json: cannot unmarshal non-string into Go value of type '' @ ty)"

text \<open>Reading into a field of the value type named \<open>ty\<close>.\<close>

fun unmarshal_value :: "string \<Rightarrow> 'a json \<Rightarrow> error + 'a" where
  "unmarshal_value ty (JHex x) = Inr x"
| "unmarshal_value ty JNull = Inl (non_string ty)"

text \<open>
  Reading into a field of type \<^verbatim>\<open>*common.Address\<close>: \<^verbatim>\<open>null\<close> sets the pointer to nil
  without asking the pointee's decoder.
\<close>

fun unmarshal_pointer :: "'a json \<Rightarrow> error + 'a option" where
  "unmarshal_pointer JNull = Inr None"
| "unmarshal_pointer (JHex x) = Inr (Some x)"

text \<open>
  Reading into a field of type \<^verbatim>\<open>*hexutil.Big\<close>: \<^verbatim>\<open>null\<close> sets the pointer to nil, and a
  string goes to \<^verbatim>\<open>(*hexutil.Big).UnmarshalJSON\<close>, which refuses a sign and more than
  256 bits.
\<close>

fun unmarshal_big :: "Big json \<Rightarrow> error + Big option" where
  "unmarshal_big JNull = Inr None"
| "unmarshal_big (JHex x) =
     (if x < 0 then
        Inl (DecodeError
          ''json: cannot unmarshal hex string without 0x prefix into Go value of type *hexutil.Big'')
      else if 2 ^ 256 \<le> x then
        Inl (DecodeError
          ''json: cannot unmarshal hex number > 256 bits into Go value of type *hexutil.Big'')
      else Inr (Some x))"

text \<open>
  \<^verbatim>\<open>hexutil.Bytes\<close> is a slice with a value receiver for encoding: the nil slice is written
  as the empty hex string, and a hex string is read as a slice that is not nil.
\<close>

fun bytes_of :: "'a slice \<Rightarrow> 'a list" where
  "bytes_of NilSlice = []"
| "bytes_of (Slice xs) = xs"

fun unmarshal_bytes :: "8 word list json \<Rightarrow> error + Bytes" where
  "unmarshal_bytes (JHex xs) = Inr (Slice xs)"
| "unmarshal_bytes JNull = Inl (non_string ''hexutil.Bytes'')"

definition marshal_RPCTransaction :: "RPCTransaction \<Rightarrow> RPCTransactionJSON" where
  "marshal_RPCTransaction t =
     \<lparr>json_blockHash = marshal_value (BlockHash t),
      json_blockNumber = marshal_pointer (BlockNumber t),
      json_from = marshal_value (RPCTransaction.From t),
      json_gas = marshal_pointer (RPCTransaction.Gas t),
      json_gasPrice = marshal_pointer (RPCTransaction.GasPrice t),
      json_hash = marshal_value (Hash t),
      json_input = marshal_value (bytes_of (Input t)),
      json_nonce = marshal_value (RPCTransaction.Nonce t),
      json_to = marshal_pointer (RPCTransaction.To t),
      json_transactionIndex = marshal_value (TransactionIndex t),
      json_value = marshal_pointer (RPCTransaction.Value t),
      json_v = marshal_pointer (V t),
      json_r = marshal_pointer (R t),
      json_s = marshal_pointer (S t)\<rparr>"

text \<open>
  Decoding ends at the first field whose decoder fails. The library takes the keys in
  the order of the JSON text; the record form has no such order, and the fields are
  taken in the order of declaration. Whether decoding fails does not depend on the
  order; which field's error is reported does.
\<close>

definition then_field :: "error + 'a \<Rightarrow> ('a \<Rightarrow> error + 'b) \<Rightarrow> error + 'b" where
  "then_field x f = (case x of Inl e \<Rightarrow> Inl e | Inr v \<Rightarrow> f v)"

definition unmarshal_RPCTransaction :: "RPCTransactionJSON \<Rightarrow> error + RPCTransaction" where
  "unmarshal_RPCTransaction j =
     then_field (unmarshal_value ''common.Hash'' (json_blockHash j)) (\<lambda>bh.
     then_field (unmarshal_big (json_blockNumber j)) (\<lambda>bn.
     then_field (unmarshal_value ''common.Address'' (json_from j)) (\<lambda>fr.
     then_field (unmarshal_big (json_gas j)) (\<lambda>g.
     then_field (unmarshal_big (json_gasPrice j)) (\<lambda>gp.
     then_field (unmarshal_value ''common.Hash'' (json_hash j)) (\<lambda>h.
     then_field (unmarshal_bytes (json_input j)) (\<lambda>inp.
     then_field (unmarshal_value ''hexutil.Uint64'' (json_nonce j)) (\<lambda>nc.
     then_field (unmarshal_pointer (json_to j)) (\<lambda>rcpt.
     then_field (unmarshal_value ''hexutil.Uint'' (json_transactionIndex j)) (\<lambda>ti.
     then_field (unmarshal_big (json_value j)) (\<lambda>val.
     then_field (unmarshal_big (json_v j)) (\<lambda>sv.
     then_field (unmarshal_big (json_r j)) (\<lambda>sr.
     then_field (unmarshal_big (json_s j)) (\<lambda>ss.
       Inr \<lparr>BlockHash = bh, BlockNumber = bn, From = fr, Gas = g, GasPrice = gp,
            Hash = h, Input = inp, Nonce = nc, To = rcpt, TransactionIndex = ti,
            Value = val, V = sv, R = sr, S = ss\<rparr>))))))))))))))"

section \<open>Transports to run the facade on\<close>

text \<open>
  A fresh facade on a client, no call made yet. The state of the node is the number of
  requests it has served.
\<close>

definition start :: "'w Client \<Rightarrow> 'w \<Rightarrow> 'w state" where
  "start cl n = \<lparr>pool = NewPublicTransactionPool cl, calls = [], net = n\<rparr>"

text \<open>A transport that fails every call before anything is decoded.\<close>

definition failing :: "error \<Rightarrow> nat Client" where
  "failing e =
     \<lparr>into_UintPtr = (\<lambda>ctx r m a n. ((Some e, r), Suc n)),
      into_Uint64Ptr = (\<lambda>ctx r m a n. ((Some e, r), Suc n)),
      into_TxPtr = (\<lambda>ctx r m a n. ((Some e, r), Suc n)),
      into_SignTxPtr = (\<lambda>ctx r m a n. ((Some e, r), Suc n)),
      into_Bytes = (\<lambda>ctx r m a n. ((Some e, r), Suc n)),
      into_Hash = (\<lambda>ctx r m a n. ((Some e, r), Suc n)),
      into_Map = (\<lambda>ctx r m a n. ((Some e, r), Suc n)),
      into_Txs = (\<lambda>ctx r m a n. ((Some e, r), Suc n))\<rparr>"

text \<open>
  A pending contract creation as a node sends it: no block, no recipient.
\<close>

definition pending_creation :: RPCTransaction where
  "pending_creation =
     \<lparr>BlockHash = 0, BlockNumber = None, From = 0x11, Gas = Some 21000,
      GasPrice = Some 1, Hash = 0xAB, Input = Slice [0x60, 0x60], Nonce = 3,
      To = None, TransactionIndex = 0, Value = Some 0,
      V = Some 27, R = Some 5, S = Some 6\<rparr>"

text \<open>
  A transport that fails every call after it has written to the holder, as a decoder
  does that meets a value of the wrong kind in the middle of a reply.
\<close>

definition half_decoded :: "error \<Rightarrow> nat Client" where
  "half_decoded e =
     \<lparr>into_UintPtr = (\<lambda>ctx r m a n. ((Some e, Some 7), Suc n)),
      into_Uint64Ptr = (\<lambda>ctx r m a n. ((Some e, Some 7), Suc n)),
      into_TxPtr = (\<lambda>ctx r m a n. ((Some e, Some pending_creation), Suc n)),
      into_SignTxPtr = (\<lambda>ctx r m a n. ((Some e, Some \<lparr>Raw = Slice [1], Tx = None\<rparr>), Suc n)),
      into_Bytes = (\<lambda>ctx r m a n. ((Some e, Slice [1]), Suc n)),
      into_Hash = (\<lambda>ctx r m a n. ((Some e, 0xAB), Suc n)),
      into_Map = (\<lambda>ctx r m a n. ((Some e, Map [(''status'', IString ''0x1'')]), Suc n)),
      into_Txs = (\<lambda>ctx r m a n. ((Some e, Slice [Some pending_creation]), Suc n))\<rparr>"

text \<open>
  A node that answers every call: \<^verbatim>\<open>null\<close> where the holder is a pointer or a map, an
  empty array for the list of pending transactions, the hash \<^verbatim>\<open>0xaa...aa\<close> (32 bytes)
  for a submission and an empty byte string elsewhere.
\<close>

definition answering :: "nat Client" where
  "answering =
     \<lparr>into_UintPtr = (\<lambda>ctx r m a n. ((None, None), Suc n)),
      into_Uint64Ptr = (\<lambda>ctx r m a n. ((None, None), Suc n)),
      into_TxPtr = (\<lambda>ctx r m a n. ((None, None), Suc n)),
      into_SignTxPtr = (\<lambda>ctx r m a n. ((None, None), Suc n)),
      into_Bytes = (\<lambda>ctx r m a n. ((None, Slice []), Suc n)),
      into_Hash = (\<lambda>ctx r m a n.
         ((None, 0xaaaaaaaaaaaaaaaaaaaaaaaaaaaaaaaaaaaaaaaaaaaaaaaaaaaaaaaaaaaaaaaa), Suc n)),
      into_Map = (\<lambda>ctx r m a n. ((None, NilMap), Suc n)),
      into_Txs = (\<lambda>ctx r m a n. ((None, Slice []), Suc n))\<rparr>"

text \<open>The JSON of a pending transaction whose block hash is \<^verbatim>\<open>null\<close>.\<close>

definition pending_json :: RPCTransactionJSON where
  "pending_json =
     \<lparr>json_blockHash = JNull, json_blockNumber = JNull, json_from = JHex 0x11,
      json_gas = JHex 21000, json_gasPrice = JHex 1, json_hash = JHex 0xAB,
      json_input = JHex [0x60, 0x60], json_nonce = JHex 3, json_to = JNull,
      json_transactionIndex = JHex 0, json_value = JHex 0,
      json_v = JHex 27, json_r = JHex 5, json_s = JHex 6\<rparr>"

text \<open>Errors, arguments and states to run the facade on.\<close>

definition locked_account :: error where
  "locked_account = RPCError (- 32000) ''authentication needed: password or unlock''"

definition mismatch :: error where
  "mismatch =
     DecodeError ''json: cannot unmarshal number into Go value of type rpc.RPCTransaction''"

definition transfer :: SendTxArgs where
  "transfer =
     \<lparr>SendTxArgs.From = 0x11, To = 0x22, Gas = 21000, GasPrice = 1, Value = 5,
      Data = NilSlice, Nonce = 3\<rparr>"

definition serving :: "nat state" where
  "serving = start answering 0"

definition refusing :: "nat state" where
  "refusing = start (failing locked_account) 0"

definition garbling :: "nat state" where
  "garbling = start (half_decoded mismatch) 0"

section \<open>What an operation may touch\<close>

text \<open>
  \<open>single_call f s cs\<close>: run in \<open>s\<close>, the operation \<open>f\<close> leaves the calls made before
  it as they were and adds exactly one; it leaves the facade object as it was; and
  what it returns and what becomes of the node do not depend on the calls made before
  (\<open>cs\<close> is any other history). The state has no further component.
\<close>

definition single_call ::
  "('w state \<Rightarrow> 'a \<times> 'w state) \<Rightarrow> 'w state \<Rightarrow> call list \<Rightarrow> bool" where
  "single_call f s cs =
     (length (calls (snd (f s))) = Suc (length (calls s)) \<and>
      butlast (calls (snd (f s))) = calls s \<and>
      pool (snd (f s)) = pool s \<and>
      fst (f (s\<lparr>calls := cs\<rparr>)) = fst (f s) \<and>
      net (snd (f (s\<lparr>calls := cs\<rparr>))) = net (snd (f s)))"

section \<open>Operations, one call each\<close>

text \<open>
  For each operation: the whole outcome once the transport's answer is known
  (\<open>_run\<close>), and from it the call that was recorded, the facade object, the state of the
  node and the pair that is returned.
\<close>

lemma GetBlockTransactionCountByNumber_run:
  assumes "into_UintPtr (client (pool s)) ctx None ''eth_getBlockTransactionCountByNumber''
             [AString blockNr] (net s) = ((err, r), n')"
  shows "GetBlockTransactionCountByNumber ctx blockNr s =
           ((if err \<noteq> None then None else r, err),
            s\<lparr>calls := calls s @
                 [\<lparr>callctx = ctx, method_name = ''eth_getBlockTransactionCountByNumber'',
                   params = [AString blockNr]\<rparr>],
              net := n'\<rparr>)"
  using assms by (simp add: GetBlockTransactionCountByNumber_def CallContext_def)

lemma GetBlockTransactionCountByNumber_calls:
  "calls (snd (GetBlockTransactionCountByNumber ctx blockNr s)) =
     calls s @ [\<lparr>callctx = ctx, method_name = ''eth_getBlockTransactionCountByNumber'',
                 params = [AString blockNr]\<rparr>]"
  by (auto simp: GetBlockTransactionCountByNumber_def CallContext_def split: prod.splits)

lemma GetBlockTransactionCountByNumber_pool:
  "pool (snd (GetBlockTransactionCountByNumber ctx blockNr s)) = pool s"
  by (auto simp: GetBlockTransactionCountByNumber_def CallContext_def split: prod.splits)

lemma GetBlockTransactionCountByNumber_net:
  "net (snd (GetBlockTransactionCountByNumber ctx blockNr s)) =
     snd (into_UintPtr (client (pool s)) ctx None ''eth_getBlockTransactionCountByNumber''
             [AString blockNr] (net s))"
  by (auto simp: GetBlockTransactionCountByNumber_def CallContext_def split: prod.splits)

lemma GetBlockTransactionCountByNumber_result:
  "fst (GetBlockTransactionCountByNumber ctx blockNr s) =
     (case fst (into_UintPtr (client (pool s)) ctx None ''eth_getBlockTransactionCountByNumber''
             [AString blockNr] (net s)) of
        (err, r) \<Rightarrow> (if err \<noteq> None then None else r, err))"
  by (auto simp: GetBlockTransactionCountByNumber_def CallContext_def split: prod.splits)

lemma GetBlockTransactionCountByHash_run:
  assumes "into_UintPtr (client (pool s)) ctx None ''eth_getBlockTransactionCountByHash''
             [AHash blockHash] (net s) = ((err, r), n')"
  shows "GetBlockTransactionCountByHash ctx blockHash s =
           ((if err \<noteq> None then None else r, err),
            s\<lparr>calls := calls s @
                 [\<lparr>callctx = ctx, method_name = ''eth_getBlockTransactionCountByHash'',
                   params = [AHash blockHash]\<rparr>],
              net := n'\<rparr>)"
  using assms by (simp add: GetBlockTransactionCountByHash_def CallContext_def)

lemma GetBlockTransactionCountByHash_calls:
  "calls (snd (GetBlockTransactionCountByHash ctx blockHash s)) =
     calls s @ [\<lparr>callctx = ctx, method_name = ''eth_getBlockTransactionCountByHash'',
                 params = [AHash blockHash]\<rparr>]"
  by (auto simp: GetBlockTransactionCountByHash_def CallContext_def split: prod.splits)

lemma GetBlockTransactionCountByHash_pool:
  "pool (snd (GetBlockTransactionCountByHash ctx blockHash s)) = pool s"
  by (auto simp: GetBlockTransactionCountByHash_def CallContext_def split: prod.splits)

lemma GetBlockTransactionCountByHash_net:
  "net (snd (GetBlockTransactionCountByHash ctx blockHash s)) =
     snd (into_UintPtr (client (pool s)) ctx None ''eth_getBlockTransactionCountByHash''
             [AHash blockHash] (net s))"
  by (auto simp: GetBlockTransactionCountByHash_def CallContext_def split: prod.splits)

lemma GetBlockTransactionCountByHash_result:
  "fst (GetBlockTransactionCountByHash ctx blockHash s) =
     (case fst (into_UintPtr (client (pool s)) ctx None ''eth_getBlockTransactionCountByHash''
             [AHash blockHash] (net s)) of
        (err, r) \<Rightarrow> (if err \<noteq> None then None else r, err))"
  by (auto simp: GetBlockTransactionCountByHash_def CallContext_def split: prod.splits)

lemma GetTransactionByBlockNumberAndIndex_run:
  assumes "into_TxPtr (client (pool s)) ctx None ''eth_getTransactionByBlockNumberAndIndex''
             [AString blockNr, AUint index] (net s) = ((err, r), n')"
  shows "GetTransactionByBlockNumberAndIndex ctx blockNr index s =
           ((if err \<noteq> None then None else r, err),
            s\<lparr>calls := calls s @
                 [\<lparr>callctx = ctx, method_name = ''eth_getTransactionByBlockNumberAndIndex'',
                   params = [AString blockNr, AUint index]\<rparr>],
              net := n'\<rparr>)"
  using assms by (simp add: GetTransactionByBlockNumberAndIndex_def CallContext_def)

lemma GetTransactionByBlockNumberAndIndex_calls:
  "calls (snd (GetTransactionByBlockNumberAndIndex ctx blockNr index s)) =
     calls s @ [\<lparr>callctx = ctx, method_name = ''eth_getTransactionByBlockNumberAndIndex'',
                 params = [AString blockNr, AUint index]\<rparr>]"
  by (auto simp: GetTransactionByBlockNumberAndIndex_def CallContext_def split: prod.splits)

lemma GetTransactionByBlockNumberAndIndex_pool:
  "pool (snd (GetTransactionByBlockNumberAndIndex ctx blockNr index s)) = pool s"
  by (auto simp: GetTransactionByBlockNumberAndIndex_def CallContext_def split: prod.splits)

lemma GetTransactionByBlockNumberAndIndex_net:
  "net (snd (GetTransactionByBlockNumberAndIndex ctx blockNr index s)) =
     snd (into_TxPtr (client (pool s)) ctx None ''eth_getTransactionByBlockNumberAndIndex''
             [AString blockNr, AUint index] (net s))"
  by (auto simp: GetTransactionByBlockNumberAndIndex_def CallContext_def split: prod.splits)

lemma GetTransactionByBlockNumberAndIndex_result:
  "fst (GetTransactionByBlockNumberAndIndex ctx blockNr index s) =
     (case fst (into_TxPtr (client (pool s)) ctx None ''eth_getTransactionByBlockNumberAndIndex''
             [AString blockNr, AUint index] (net s)) of
        (err, r) \<Rightarrow> (if err \<noteq> None then None else r, err))"
  by (auto simp: GetTransactionByBlockNumberAndIndex_def CallContext_def split: prod.splits)

lemma GetTransactionByBlockHashAndIndex_run:
  assumes "into_TxPtr (client (pool s)) ctx None ''eth_getTransactionByBlockNumberAndIndex''
             [AHash blockHash, AUint index] (net s) = ((err, r), n')"
  shows "GetTransactionByBlockHashAndIndex ctx blockHash index s =
           ((if err \<noteq> None then None else r, err),
            s\<lparr>calls := calls s @
                 [\<lparr>callctx = ctx, method_name = ''eth_getTransactionByBlockNumberAndIndex'',
                   params = [AHash blockHash, AUint index]\<rparr>],
              net := n'\<rparr>)"
  using assms by (simp add: GetTransactionByBlockHashAndIndex_def CallContext_def)

lemma GetTransactionByBlockHashAndIndex_calls:
  "calls (snd (GetTransactionByBlockHashAndIndex ctx blockHash index s)) =
     calls s @ [\<lparr>callctx = ctx, method_name = ''eth_getTransactionByBlockNumberAndIndex'',
                 params = [AHash blockHash, AUint index]\<rparr>]"
  by (auto simp: GetTransactionByBlockHashAndIndex_def CallContext_def split: prod.splits)

lemma GetTransactionByBlockHashAndIndex_pool:
  "pool (snd (GetTransactionByBlockHashAndIndex ctx blockHash index s)) = pool s"
  by (auto simp: GetTransactionByBlockHashAndIndex_def CallContext_def split: prod.splits)

lemma GetTransactionByBlockHashAndIndex_net:
  "net (snd (GetTransactionByBlockHashAndIndex ctx blockHash index s)) =
     snd (into_TxPtr (client (pool s)) ctx None ''eth_getTransactionByBlockNumberAndIndex''
             [AHash blockHash, AUint index] (net s))"
  by (auto simp: GetTransactionByBlockHashAndIndex_def CallContext_def split: prod.splits)

lemma GetTransactionByBlockHashAndIndex_result:
  "fst (GetTransactionByBlockHashAndIndex ctx blockHash index s) =
     (case fst (into_TxPtr (client (pool s)) ctx None ''eth_getTransactionByBlockNumberAndIndex''
             [AHash blockHash, AUint index] (net s)) of
        (err, r) \<Rightarrow> (if err \<noteq> None then None else r, err))"
  by (auto simp: GetTransactionByBlockHashAndIndex_def CallContext_def split: prod.splits)

lemma GetRawTransactionByBlockNumberAndIndex_run:
  assumes "into_Bytes (client (pool s)) ctx NilSlice ''eth_getRawTransactionByBlockNumberAndIndex''
             [AString blockNr, AUint index] (net s) = ((err, r), n')"
  shows "GetRawTransactionByBlockNumberAndIndex ctx blockNr index s =
           ((r, err),
            s\<lparr>calls := calls s @
                 [\<lparr>callctx = ctx, method_name = ''eth_getRawTransactionByBlockNumberAndIndex'',
                   params = [AString blockNr, AUint index]\<rparr>],
              net := n'\<rparr>)"
  using assms by (simp add: GetRawTransactionByBlockNumberAndIndex_def CallContext_def)

lemma GetRawTransactionByBlockNumberAndIndex_calls:
  "calls (snd (GetRawTransactionByBlockNumberAndIndex ctx blockNr index s)) =
     calls s @ [\<lparr>callctx = ctx, method_name = ''eth_getRawTransactionByBlockNumberAndIndex'',
                 params = [AString blockNr, AUint index]\<rparr>]"
  by (auto simp: GetRawTransactionByBlockNumberAndIndex_def CallContext_def split: prod.splits)

lemma GetRawTransactionByBlockNumberAndIndex_pool:
  "pool (snd (GetRawTransactionByBlockNumberAndIndex ctx blockNr index s)) = pool s"
  by (auto simp: GetRawTransactionByBlockNumberAndIndex_def CallContext_def split: prod.splits)

lemma GetRawTransactionByBlockNumberAndIndex_net:
  "net (snd (GetRawTransactionByBlockNumberAndIndex ctx blockNr index s)) =
     snd (into_Bytes (client (pool s)) ctx NilSlice ''eth_getRawTransactionByBlockNumberAndIndex''
             [AString blockNr, AUint index] (net s))"
  by (auto simp: GetRawTransactionByBlockNumberAndIndex_def CallContext_def split: prod.splits)

lemma GetRawTransactionByBlockNumberAndIndex_result:
  "fst (GetRawTransactionByBlockNumberAndIndex ctx blockNr index s) =
     (case fst (into_Bytes (client (pool s)) ctx NilSlice ''eth_getRawTransactionByBlockNumberAndIndex''
             [AString blockNr, AUint index] (net s)) of
        (err, r) \<Rightarrow> (r, err))"
  by (auto simp: GetRawTransactionByBlockNumberAndIndex_def CallContext_def split: prod.splits)

lemma GetRawTransactionByBlockHashAndIndex_run:
  assumes "into_Bytes (client (pool s)) ctx NilSlice ''eth_getRawTransactionByBlockHashAndIndex''
             [AHash blockHash, AUint index] (net s) = ((err, r), n')"
  shows "GetRawTransactionByBlockHashAndIndex ctx blockHash index s =
           ((r, err),
            s\<lparr>calls := calls s @
                 [\<lparr>callctx = ctx, method_name = ''eth_getRawTransactionByBlockHashAndIndex'',
                   params = [AHash blockHash, AUint index]\<rparr>],
              net := n'\<rparr>)"
  using assms by (simp add: GetRawTransactionByBlockHashAndIndex_def CallContext_def)

lemma GetRawTransactionByBlockHashAndIndex_calls:
  "calls (snd (GetRawTransactionByBlockHashAndIndex ctx blockHash index s)) =
     calls s @ [\<lparr>callctx = ctx, method_name = ''eth_getRawTransactionByBlockHashAndIndex'',
                 params = [AHash blockHash, AUint index]\<rparr>]"
  by (auto simp: GetRawTransactionByBlockHashAndIndex_def CallContext_def split: prod.splits)

lemma GetRawTransactionByBlockHashAndIndex_pool:
  "pool (snd (GetRawTransactionByBlockHashAndIndex ctx blockHash index s)) = pool s"
  by (auto simp: GetRawTransactionByBlockHashAndIndex_def CallContext_def split: prod.splits)

lemma GetRawTransactionByBlockHashAndIndex_net:
  "net (snd (GetRawTransactionByBlockHashAndIndex ctx blockHash index s)) =
     snd (into_Bytes (client (pool s)) ctx NilSlice ''eth_getRawTransactionByBlockHashAndIndex''
             [AHash blockHash, AUint index] (net s))"
  by (auto simp: GetRawTransactionByBlockHashAndIndex_def CallContext_def split: prod.splits)

lemma GetRawTransactionByBlockHashAndIndex_result:
  "fst (GetRawTransactionByBlockHashAndIndex ctx blockHash index s) =
     (case fst (into_Bytes (client (pool s)) ctx NilSlice ''eth_getRawTransactionByBlockHashAndIndex''
             [AHash blockHash, AUint index] (net s)) of
        (err, r) \<Rightarrow> (r, err))"
  by (auto simp: GetRawTransactionByBlockHashAndIndex_def CallContext_def split: prod.splits)

lemma GetTransactionCount_run:
  assumes "into_Uint64Ptr (client (pool s)) ctx None ''eth_getTransactionCount''
             [AAddress address, AString blockNr] (net s) = ((err, r), n')"
  shows "GetTransactionCount ctx address blockNr s =
           ((if err \<noteq> None then None else r, err),
            s\<lparr>calls := calls s @
                 [\<lparr>callctx = ctx, method_name = ''eth_getTransactionCount'',
                   params = [AAddress address, AString blockNr]\<rparr>],
              net := n'\<rparr>)"
  using assms by (simp add: GetTransactionCount_def CallContext_def)

lemma GetTransactionCount_calls:
  "calls (snd (GetTransactionCount ctx address blockNr s)) =
     calls s @ [\<lparr>callctx = ctx, method_name = ''eth_getTransactionCount'',
                 params = [AAddress address, AString blockNr]\<rparr>]"
  by (auto simp: GetTransactionCount_def CallContext_def split: prod.splits)

lemma GetTransactionCount_pool:
  "pool (snd (GetTransactionCount ctx address blockNr s)) = pool s"
  by (auto simp: GetTransactionCount_def CallContext_def split: prod.splits)

lemma GetTransactionCount_net:
  "net (snd (GetTransactionCount ctx address blockNr s)) =
     snd (into_Uint64Ptr (client (pool s)) ctx None ''eth_getTransactionCount''
             [AAddress address, AString blockNr] (net s))"
  by (auto simp: GetTransactionCount_def CallContext_def split: prod.splits)

lemma GetTransactionCount_result:
  "fst (GetTransactionCount ctx address blockNr s) =
     (case fst (into_Uint64Ptr (client (pool s)) ctx None ''eth_getTransactionCount''
             [AAddress address, AString blockNr] (net s)) of
        (err, r) \<Rightarrow> (if err \<noteq> None then None else r, err))"
  by (auto simp: GetTransactionCount_def CallContext_def split: prod.splits)

lemma GetTransactionByHash_run:
  assumes "into_TxPtr (client (pool s)) ctx None ''eth_getTransactionByHash''
             [AHash hash] (net s) = ((err, r), n')"
  shows "GetTransactionByHash ctx hash s =
           ((if err \<noteq> None then None else r, err),
            s\<lparr>calls := calls s @
                 [\<lparr>callctx = ctx, method_name = ''eth_getTransactionByHash'',
                   params = [AHash hash]\<rparr>],
              net := n'\<rparr>)"
  using assms by (simp add: GetTransactionByHash_def CallContext_def)

lemma GetTransactionByHash_calls:
  "calls (snd (GetTransactionByHash ctx hash s)) =
     calls s @ [\<lparr>callctx = ctx, method_name = ''eth_getTransactionByHash'',
                 params = [AHash hash]\<rparr>]"
  by (auto simp: GetTransactionByHash_def CallContext_def split: prod.splits)

lemma GetTransactionByHash_pool:
  "pool (snd (GetTransactionByHash ctx hash s)) = pool s"
  by (auto simp: GetTransactionByHash_def CallContext_def split: prod.splits)

lemma GetTransactionByHash_net:
  "net (snd (GetTransactionByHash ctx hash s)) =
     snd (into_TxPtr (client (pool s)) ctx None ''eth_getTransactionByHash''
             [AHash hash] (net s))"
  by (auto simp: GetTransactionByHash_def CallContext_def split: prod.splits)

lemma GetTransactionByHash_result:
  "fst (GetTransactionByHash ctx hash s) =
     (case fst (into_TxPtr (client (pool s)) ctx None ''eth_getTransactionByHash''
             [AHash hash] (net s)) of
        (err, r) \<Rightarrow> (if err \<noteq> None then None else r, err))"
  by (auto simp: GetTransactionByHash_def CallContext_def split: prod.splits)

lemma GetRawTransactionByHash_run:
  assumes "into_Bytes (client (pool s)) ctx NilSlice ''eth_getRawTransactionByHash''
             [AHash hash] (net s) = ((err, r), n')"
  shows "GetRawTransactionByHash ctx hash s =
           ((r, err),
            s\<lparr>calls := calls s @
                 [\<lparr>callctx = ctx, method_name = ''eth_getRawTransactionByHash'',
                   params = [AHash hash]\<rparr>],
              net := n'\<rparr>)"
  using assms by (simp add: GetRawTransactionByHash_def CallContext_def)

lemma GetRawTransactionByHash_calls:
  "calls (snd (GetRawTransactionByHash ctx hash s)) =
     calls s @ [\<lparr>callctx = ctx, method_name = ''eth_getRawTransactionByHash'',
                 params = [AHash hash]\<rparr>]"
  by (auto simp: GetRawTransactionByHash_def CallContext_def split: prod.splits)

lemma GetRawTransactionByHash_pool:
  "pool (snd (GetRawTransactionByHash ctx hash s)) = pool s"
  by (auto simp: GetRawTransactionByHash_def CallContext_def split: prod.splits)

lemma GetRawTransactionByHash_net:
  "net (snd (GetRawTransactionByHash ctx hash s)) =
     snd (into_Bytes (client (pool s)) ctx NilSlice ''eth_getRawTransactionByHash''
             [AHash hash] (net s))"
  by (auto simp: GetRawTransactionByHash_def CallContext_def split: prod.splits)

lemma GetRawTransactionByHash_result:
  "fst (GetRawTransactionByHash ctx hash s) =
     (case fst (into_Bytes (client (pool s)) ctx NilSlice ''eth_getRawTransactionByHash''
             [AHash hash] (net s)) of
        (err, r) \<Rightarrow> (r, err))"
  by (auto simp: GetRawTransactionByHash_def CallContext_def split: prod.splits)

lemma GetTransactionReceipt_run:
  assumes "into_Map (client (pool s)) ctx NilMap ''eth_getTransactionReceipt''
             [AHash hash] (net s) = ((err, r), n')"
  shows "GetTransactionReceipt ctx hash s =
           ((r, err),
            s\<lparr>calls := calls s @
                 [\<lparr>callctx = ctx, method_name = ''eth_getTransactionReceipt'',
                   params = [AHash hash]\<rparr>],
              net := n'\<rparr>)"
  using assms by (simp add: GetTransactionReceipt_def CallContext_def)

lemma GetTransactionReceipt_calls:
  "calls (snd (GetTransactionReceipt ctx hash s)) =
     calls s @ [\<lparr>callctx = ctx, method_name = ''eth_getTransactionReceipt'',
                 params = [AHash hash]\<rparr>]"
  by (auto simp: GetTransactionReceipt_def CallContext_def split: prod.splits)

lemma GetTransactionReceipt_pool:
  "pool (snd (GetTransactionReceipt ctx hash s)) = pool s"
  by (auto simp: GetTransactionReceipt_def CallContext_def split: prod.splits)

lemma GetTransactionReceipt_net:
  "net (snd (GetTransactionReceipt ctx hash s)) =
     snd (into_Map (client (pool s)) ctx NilMap ''eth_getTransactionReceipt''
             [AHash hash] (net s))"
  by (auto simp: GetTransactionReceipt_def CallContext_def split: prod.splits)

lemma GetTransactionReceipt_result:
  "fst (GetTransactionReceipt ctx hash s) =
     (case fst (into_Map (client (pool s)) ctx NilMap ''eth_getTransactionReceipt''
             [AHash hash] (net s)) of
        (err, r) \<Rightarrow> (r, err))"
  by (auto simp: GetTransactionReceipt_def CallContext_def split: prod.splits)

lemma SendTransaction_run:
  assumes "into_Hash (client (pool s)) ctx 0 ''eth_sendTransaction''
             [ASendTxArgs args] (net s) = ((err, r), n')"
  shows "SendTransaction ctx args s =
           ((r, err),
            s\<lparr>calls := calls s @
                 [\<lparr>callctx = ctx, method_name = ''eth_sendTransaction'',
                   params = [ASendTxArgs args]\<rparr>],
              net := n'\<rparr>)"
  using assms by (simp add: SendTransaction_def CallContext_def)

lemma SendTransaction_calls:
  "calls (snd (SendTransaction ctx args s)) =
     calls s @ [\<lparr>callctx = ctx, method_name = ''eth_sendTransaction'',
                 params = [ASendTxArgs args]\<rparr>]"
  by (auto simp: SendTransaction_def CallContext_def split: prod.splits)

lemma SendTransaction_pool:
  "pool (snd (SendTransaction ctx args s)) = pool s"
  by (auto simp: SendTransaction_def CallContext_def split: prod.splits)

lemma SendTransaction_net:
  "net (snd (SendTransaction ctx args s)) =
     snd (into_Hash (client (pool s)) ctx 0 ''eth_sendTransaction''
             [ASendTxArgs args] (net s))"
  by (auto simp: SendTransaction_def CallContext_def split: prod.splits)

lemma SendTransaction_result:
  "fst (SendTransaction ctx args s) =
     (case fst (into_Hash (client (pool s)) ctx 0 ''eth_sendTransaction''
             [ASendTxArgs args] (net s)) of
        (err, r) \<Rightarrow> (r, err))"
  by (auto simp: SendTransaction_def CallContext_def split: prod.splits)

lemma SendRawTransaction_run:
  assumes "into_Hash (client (pool s)) ctx 0 ''eth_sendRawTransaction''
             [ABytes encodedTx] (net s) = ((err, r), n')"
  shows "SendRawTransaction ctx encodedTx s =
           ((r, err),
            s\<lparr>calls := calls s @
                 [\<lparr>callctx = ctx, method_name = ''eth_sendRawTransaction'',
                   params = [ABytes encodedTx]\<rparr>],
              net := n'\<rparr>)"
  using assms by (simp add: SendRawTransaction_def CallContext_def)

lemma SendRawTransaction_calls:
  "calls (snd (SendRawTransaction ctx encodedTx s)) =
     calls s @ [\<lparr>callctx = ctx, method_name = ''eth_sendRawTransaction'',
                 params = [ABytes encodedTx]\<rparr>]"
  by (auto simp: SendRawTransaction_def CallContext_def split: prod.splits)

lemma SendRawTransaction_pool:
  "pool (snd (SendRawTransaction ctx encodedTx s)) = pool s"
  by (auto simp: SendRawTransaction_def CallContext_def split: prod.splits)

lemma SendRawTransaction_net:
  "net (snd (SendRawTransaction ctx encodedTx s)) =
     snd (into_Hash (client (pool s)) ctx 0 ''eth_sendRawTransaction''
             [ABytes encodedTx] (net s))"
  by (auto simp: SendRawTransaction_def CallContext_def split: prod.splits)

lemma SendRawTransaction_result:
  "fst (SendRawTransaction ctx encodedTx s) =
     (case fst (into_Hash (client (pool s)) ctx 0 ''eth_sendRawTransaction''
             [ABytes encodedTx] (net s)) of
        (err, r) \<Rightarrow> (r, err))"
  by (auto simp: SendRawTransaction_def CallContext_def split: prod.splits)

lemma Sign_run:
  assumes "into_Bytes (client (pool s)) ctx NilSlice ''eth_sign''
             [AAddress addr, ABytes data] (net s) = ((err, r), n')"
  shows "Sign ctx addr data s =
           ((if err \<noteq> None then NilSlice else r, err),
            s\<lparr>calls := calls s @
                 [\<lparr>callctx = ctx, method_name = ''eth_sign'',
                   params = [AAddress addr, ABytes data]\<rparr>],
              net := n'\<rparr>)"
  using assms by (simp add: Sign_def CallContext_def)

lemma Sign_calls:
  "calls (snd (Sign ctx addr data s)) =
     calls s @ [\<lparr>callctx = ctx, method_name = ''eth_sign'',
                 params = [AAddress addr, ABytes data]\<rparr>]"
  by (auto simp: Sign_def CallContext_def split: prod.splits)

lemma Sign_pool:
  "pool (snd (Sign ctx addr data s)) = pool s"
  by (auto simp: Sign_def CallContext_def split: prod.splits)

lemma Sign_net:
  "net (snd (Sign ctx addr data s)) =
     snd (into_Bytes (client (pool s)) ctx NilSlice ''eth_sign''
             [AAddress addr, ABytes data] (net s))"
  by (auto simp: Sign_def CallContext_def split: prod.splits)

lemma Sign_result:
  "fst (Sign ctx addr data s) =
     (case fst (into_Bytes (client (pool s)) ctx NilSlice ''eth_sign''
             [AAddress addr, ABytes data] (net s)) of
        (err, r) \<Rightarrow> (if err \<noteq> None then NilSlice else r, err))"
  by (auto simp: Sign_def CallContext_def split: prod.splits)

lemma Resend_run:
  assumes "into_Hash (client (pool s)) ctx 0 ''eth_resend''
             [ASendTxArgs sendArgs, ABig gasPrice, ABig gasLimit] (net s) = ((err, r), n')"
  shows "Resend ctx sendArgs gasPrice gasLimit s =
           ((r, err),
            s\<lparr>calls := calls s @
                 [\<lparr>callctx = ctx, method_name = ''eth_resend'',
                   params = [ASendTxArgs sendArgs, ABig gasPrice, ABig gasLimit]\<rparr>],
              net := n'\<rparr>)"
  using assms by (simp add: Resend_def CallContext_def)

lemma Resend_calls:
  "calls (snd (Resend ctx sendArgs gasPrice gasLimit s)) =
     calls s @ [\<lparr>callctx = ctx, method_name = ''eth_resend'',
                 params = [ASendTxArgs sendArgs, ABig gasPrice, ABig gasLimit]\<rparr>]"
  by (auto simp: Resend_def CallContext_def split: prod.splits)

lemma Resend_pool:
  "pool (snd (Resend ctx sendArgs gasPrice gasLimit s)) = pool s"
  by (auto simp: Resend_def CallContext_def split: prod.splits)

lemma Resend_net:
  "net (snd (Resend ctx sendArgs gasPrice gasLimit s)) =
     snd (into_Hash (client (pool s)) ctx 0 ''eth_resend''
             [ASendTxArgs sendArgs, ABig gasPrice, ABig gasLimit] (net s))"
  by (auto simp: Resend_def CallContext_def split: prod.splits)

lemma Resend_result:
  "fst (Resend ctx sendArgs gasPrice gasLimit s) =
     (case fst (into_Hash (client (pool s)) ctx 0 ''eth_resend''
             [ASendTxArgs sendArgs, ABig gasPrice, ABig gasLimit] (net s)) of
        (err, r) \<Rightarrow> (r, err))"
  by (auto simp: Resend_def CallContext_def split: prod.splits)

lemma SignTransaction_run:
  assumes "into_SignTxPtr (client (pool s)) ctx None ''eth_signTransaction''
             [ASendTxArgs args] (net s) = ((err, r), n')"
  shows "SignTransaction ctx args s =
           ((if err \<noteq> None then None else r, err),
            s\<lparr>calls := calls s @
                 [\<lparr>callctx = ctx, method_name = ''eth_signTransaction'',
                   params = [ASendTxArgs args]\<rparr>],
              net := n'\<rparr>)"
  using assms by (simp add: SignTransaction_def CallContext_def)

lemma SignTransaction_calls:
  "calls (snd (SignTransaction ctx args s)) =
     calls s @ [\<lparr>callctx = ctx, method_name = ''eth_signTransaction'',
                 params = [ASendTxArgs args]\<rparr>]"
  by (auto simp: SignTransaction_def CallContext_def split: prod.splits)

lemma SignTransaction_pool:
  "pool (snd (SignTransaction ctx args s)) = pool s"
  by (auto simp: SignTransaction_def CallContext_def split: prod.splits)

lemma SignTransaction_net:
  "net (snd (SignTransaction ctx args s)) =
     snd (into_SignTxPtr (client (pool s)) ctx None ''eth_signTransaction''
             [ASendTxArgs args] (net s))"
  by (auto simp: SignTransaction_def CallContext_def split: prod.splits)

lemma SignTransaction_result:
  "fst (SignTransaction ctx args s) =
     (case fst (into_SignTxPtr (client (pool s)) ctx None ''eth_signTransaction''
             [ASendTxArgs args] (net s)) of
        (err, r) \<Rightarrow> (if err \<noteq> None then None else r, err))"
  by (auto simp: SignTransaction_def CallContext_def split: prod.splits)

lemma GetRawTransaction_run:
  assumes "into_Bytes (client (pool s)) ctx NilSlice ''eth_getRawTransactionByHash''
             [AHash hash] (net s) = ((err, r), n')"
  shows "GetRawTransaction ctx hash s =
           ((r, err),
            s\<lparr>calls := calls s @
                 [\<lparr>callctx = ctx, method_name = ''eth_getRawTransactionByHash'',
                   params = [AHash hash]\<rparr>],
              net := n'\<rparr>)"
  using assms by (simp add: GetRawTransaction_def CallContext_def)

lemma GetRawTransaction_calls:
  "calls (snd (GetRawTransaction ctx hash s)) =
     calls s @ [\<lparr>callctx = ctx, method_name = ''eth_getRawTransactionByHash'',
                 params = [AHash hash]\<rparr>]"
  by (auto simp: GetRawTransaction_def CallContext_def split: prod.splits)

lemma GetRawTransaction_pool:
  "pool (snd (GetRawTransaction ctx hash s)) = pool s"
  by (auto simp: GetRawTransaction_def CallContext_def split: prod.splits)

lemma GetRawTransaction_net:
  "net (snd (GetRawTransaction ctx hash s)) =
     snd (into_Bytes (client (pool s)) ctx NilSlice ''eth_getRawTransactionByHash''
             [AHash hash] (net s))"
  by (auto simp: GetRawTransaction_def CallContext_def split: prod.splits)

lemma GetRawTransaction_result:
  "fst (GetRawTransaction ctx hash s) =
     (case fst (into_Bytes (client (pool s)) ctx NilSlice ''eth_getRawTransactionByHash''
             [AHash hash] (net s)) of
        (err, r) \<Rightarrow> (r, err))"
  by (auto simp: GetRawTransaction_def CallContext_def split: prod.splits)

lemma PendingTransactions_run:
  assumes "into_Txs (client (pool s)) ctx NilSlice ''eth_pendingTransactions''
             [] (net s) = ((err, r), n')"
  shows "PendingTransactions ctx s =
           ((r, err),
            s\<lparr>calls := calls s @
                 [\<lparr>callctx = ctx, method_name = ''eth_pendingTransactions'',
                   params = []\<rparr>],
              net := n'\<rparr>)"
  using assms by (simp add: PendingTransactions_def CallContext_def)

lemma PendingTransactions_calls:
  "calls (snd (PendingTransactions ctx s)) =
     calls s @ [\<lparr>callctx = ctx, method_name = ''eth_pendingTransactions'',
                 params = []\<rparr>]"
  by (auto simp: PendingTransactions_def CallContext_def split: prod.splits)

lemma PendingTransactions_pool:
  "pool (snd (PendingTransactions ctx s)) = pool s"
  by (auto simp: PendingTransactions_def CallContext_def split: prod.splits)

lemma PendingTransactions_net:
  "net (snd (PendingTransactions ctx s)) =
     snd (into_Txs (client (pool s)) ctx NilSlice ''eth_pendingTransactions''
             [] (net s))"
  by (auto simp: PendingTransactions_def CallContext_def split: prod.splits)

lemma PendingTransactions_result:
  "fst (PendingTransactions ctx s) =
     (case fst (into_Txs (client (pool s)) ctx NilSlice ''eth_pendingTransactions''
             [] (net s)) of
        (err, r) \<Rightarrow> (r, err))"
  by (auto simp: PendingTransactions_def CallContext_def split: prod.splits)


section \<open>The JSON codec of the transaction record\<close>

lemma marshal_pointer_null: "marshal_pointer x = JNull \<longleftrightarrow> x = None"
  by (cases x) simp_all

lemma unmarshal_pointer_Inr:
  assumes "unmarshal_pointer j = Inr x"
  shows "marshal_pointer x = j" and "x = None \<longleftrightarrow> j = JNull"
  using assms by (cases j; auto)+

lemma unmarshal_big_Inr:
  assumes "unmarshal_big j = Inr x"
  shows "marshal_pointer x = j" and "x = None \<longleftrightarrow> j = JNull"
  using assms by (cases j; auto split: if_splits)+

lemma unmarshal_value_Inr:
  assumes "unmarshal_value ty j = Inr x"
  shows "marshal_value x = j" and "j \<noteq> JNull"
  using assms by (cases j; auto simp: marshal_value_def)+

lemma then_field_Inr:
  "then_field x f = Inr y \<longleftrightarrow> (\<exists>v. x = Inr v \<and> f v = Inr y)"
  by (cases x) (simp_all add: then_field_def)

text \<open>A record that was decoded: where its block hash, block number and recipient come from.\<close>

lemma unmarshal_RPCTransaction_fields:
  assumes "unmarshal_RPCTransaction j = Inr t"
  shows "unmarshal_value ''common.Hash'' (json_blockHash j) = Inr (BlockHash t)"
    and "unmarshal_big (json_blockNumber j) = Inr (BlockNumber t)"
    and "unmarshal_pointer (json_to j) = Inr (RPCTransaction.To t)"
  using assms unfolding unmarshal_RPCTransaction_def then_field_Inr by auto

section \<open>The claims\<close>

subsection \<open>C1: the procedure behind \<^verbatim>\<open>GetTransactionByBlockHashAndIndex\<close>\<close>

text \<open>
  Claim C1 says that \<^verbatim>\<open>GetTransactionByBlockHashAndIndex\<close> invokes the procedure named
  \<^verbatim>\<open>eth_getTransactionByBlockHashAndIndex\<close>. The code does not: on every input and
  every transport, the one call it makes carries the name
  \<^verbatim>\<open>eth_getTransactionByBlockNumberAndIndex\<close>, that of the sibling operation by block
  number, and the two names differ.
\<close>

theorem GetTransactionByBlockHashAndIndex_method:
  "map method_name (calls (snd (GetTransactionByBlockHashAndIndex ctx blockHash index s))) =
     map method_name (calls s) @ [''eth_getTransactionByBlockNumberAndIndex''] \<and>
   ''eth_getTransactionByBlockNumberAndIndex'' \<noteq> ''eth_getTransactionByBlockHashAndIndex''"
  by (simp add: GetTransactionByBlockHashAndIndex_calls)

subsection \<open>C2: \<^verbatim>\<open>null\<close> in the fields of a transaction record\<close>

text \<open>
  Claim C2, as the code has it. Block number and recipient are pointers. A record \<open>t\<close>
  that was decoded from \<open>j\<close> is encoded again with exactly the JSON it came from under
  these two keys, \<^verbatim>\<open>null\<close> as \<^verbatim>\<open>null\<close> and a value as that value, and the field is nil if
  and only if the key was \<^verbatim>\<open>null\<close>. In the other direction, any record \<open>u\<close> is encoded with
  \<^verbatim>\<open>null\<close> under these keys if and only if the field is nil, and if its encoding decodes,
  to \<open>t'\<close>, the two fields are those of \<open>u\<close>. The block hash is a \<^verbatim>\<open>common.Hash\<close>, a value
  of 32 bytes that has no nil: a JSON that decodes has no \<^verbatim>\<open>null\<close> under that key, and
  every record is encoded with a hex value there, never with \<^verbatim>\<open>null\<close>.
\<close>

theorem pointer_fields_keep_null:
  assumes "unmarshal_RPCTransaction j = Inr t"
  shows "json_blockNumber (marshal_RPCTransaction t) = json_blockNumber j \<and>
         json_to (marshal_RPCTransaction t) = json_to j \<and>
         (BlockNumber t = None \<longleftrightarrow> json_blockNumber j = JNull) \<and>
         (RPCTransaction.To t = None \<longleftrightarrow> json_to j = JNull) \<and>
         (json_blockNumber (marshal_RPCTransaction u) = JNull \<longleftrightarrow> BlockNumber u = None) \<and>
         (json_to (marshal_RPCTransaction u) = JNull \<longleftrightarrow> RPCTransaction.To u = None) \<and>
         (unmarshal_RPCTransaction (marshal_RPCTransaction u) = Inr t' \<longrightarrow>
            BlockNumber t' = BlockNumber u \<and> RPCTransaction.To t' = RPCTransaction.To u) \<and>
         json_blockHash j \<noteq> JNull \<and>
         json_blockHash (marshal_RPCTransaction t) = json_blockHash j \<and>
         json_blockHash (marshal_RPCTransaction u) = JHex (BlockHash u)"
proof -
  note d = unmarshal_RPCTransaction_fields[OF assms]
  have again: "json_blockNumber (marshal_RPCTransaction t) = json_blockNumber j"
    "json_to (marshal_RPCTransaction t) = json_to j"
    "json_blockHash (marshal_RPCTransaction t) = json_blockHash j"
    using unmarshal_big_Inr(1)[OF d(2)] unmarshal_pointer_Inr(1)[OF d(3)]
      unmarshal_value_Inr(1)[OF d(1)]
    by (simp_all add: marshal_RPCTransaction_def)
  have nil: "BlockNumber t = None \<longleftrightarrow> json_blockNumber j = JNull"
    "RPCTransaction.To t = None \<longleftrightarrow> json_to j = JNull"
    "json_blockHash j \<noteq> JNull"
    by (rule unmarshal_big_Inr(2)[OF d(2)], rule unmarshal_pointer_Inr(2)[OF d(3)],
        rule unmarshal_value_Inr(2)[OF d(1)])
  have enc: "json_blockNumber (marshal_RPCTransaction u) = JNull \<longleftrightarrow> BlockNumber u = None"
    "json_to (marshal_RPCTransaction u) = JNull \<longleftrightarrow> RPCTransaction.To u = None"
    "json_blockHash (marshal_RPCTransaction u) = JHex (BlockHash u)"
    by (simp_all add: marshal_RPCTransaction_def marshal_pointer_null marshal_value_def)
  have inj: "a = b" if "marshal_pointer a = marshal_pointer b" for a b :: "'x option"
    using that by (cases a; cases b) simp_all
  have forth: "unmarshal_RPCTransaction (marshal_RPCTransaction u) = Inr t' \<longrightarrow>
      BlockNumber t' = BlockNumber u \<and> RPCTransaction.To t' = RPCTransaction.To u"
  proof (rule impI)
    assume r: "unmarshal_RPCTransaction (marshal_RPCTransaction u) = Inr t'"
    note f = unmarshal_RPCTransaction_fields[OF r]
    have "marshal_pointer (BlockNumber t') = marshal_pointer (BlockNumber u)"
      using unmarshal_big_Inr(1)[OF f(2)] by (simp add: marshal_RPCTransaction_def)
    then have bn: "BlockNumber t' = BlockNumber u" by (rule inj)
    have "marshal_pointer (RPCTransaction.To t') = marshal_pointer (RPCTransaction.To u)"
      using unmarshal_pointer_Inr(1)[OF f(3)] by (simp add: marshal_RPCTransaction_def)
    then have "RPCTransaction.To t' = RPCTransaction.To u" by (rule inj)
    with bn show "BlockNumber t' = BlockNumber u \<and> RPCTransaction.To t' = RPCTransaction.To u"
      by (rule conjI)
  qed
  show ?thesis
    by (intro conjI) (rule again nil enc forth)+
qed

text \<open>
  The theorem at the pending contract creation, sent with a block hash of zeros: it
  decodes, its \<^verbatim>\<open>null\<close> block number and recipient are \<^verbatim>\<open>null\<close> again after encoding, and
  what was encoded decodes to the same record.
\<close>

theorem pointer_fields_keep_null_witness:
  "unmarshal_RPCTransaction (pending_json\<lparr>json_blockHash := JHex 0\<rparr>) = Inr pending_creation \<and>
   unmarshal_RPCTransaction (marshal_RPCTransaction pending_creation) = Inr pending_creation \<and>
   json_blockNumber (pending_json\<lparr>json_blockHash := JHex 0\<rparr>) = JNull \<and>
   json_to (pending_json\<lparr>json_blockHash := JHex 0\<rparr>) = JNull \<and>
   BlockNumber pending_creation = None \<and>
   RPCTransaction.To pending_creation = None \<and>
   json_blockNumber (marshal_RPCTransaction pending_creation) = JNull \<and>
   json_to (marshal_RPCTransaction pending_creation) = JNull \<and>
   json_blockHash (marshal_RPCTransaction pending_creation) = JHex 0"
proof -
  have d: "unmarshal_RPCTransaction (pending_json\<lparr>json_blockHash := JHex 0\<rparr>) =
             Inr pending_creation"
    by (simp add: pending_json_def pending_creation_def unmarshal_RPCTransaction_def
          then_field_def)
  have r: "unmarshal_RPCTransaction (marshal_RPCTransaction pending_creation) =
             Inr pending_creation"
    by (simp add: pending_creation_def marshal_RPCTransaction_def marshal_value_def
          unmarshal_RPCTransaction_def then_field_def)
  from pointer_fields_keep_null[OF d, of pending_creation pending_creation] d r
  show ?thesis
    by (simp add: pending_json_def pending_creation_def)
qed

text \<open>
  Claim C2 as it is written counts the block hash among the nullable fields. It is
  not one, in either direction: the pending transaction whose block hash is \<^verbatim>\<open>null\<close>
  does not decode at all, since \<^verbatim>\<open>common.Hash\<close> refuses what is not a string; and the
  pending record, whose block hash can only be the zero hash, is encoded with that hash
  as a hex value and not with \<^verbatim>\<open>null\<close>.
\<close>

theorem null_block_hash_counterexample:
  "json_blockHash pending_json = JNull \<and>
   unmarshal_RPCTransaction pending_json =
     Inl (DecodeError ''json: cannot unmarshal non-string into Go value of type common.Hash'') \<and>
   BlockHash pending_creation = 0 \<and>
   json_blockHash (marshal_RPCTransaction pending_creation) = JHex 0"
  by (simp add: pending_json_def pending_creation_def unmarshal_RPCTransaction_def
        then_field_def non_string_def marshal_RPCTransaction_def marshal_value_def)

text \<open>
  Not every record that is encoded decodes: \<^verbatim>\<open>hexutil.Big\<close> writes a negative block
  number and one of 257 bits, and refuses both when it reads them.
\<close>

lemma unmarshal_big_refuses:
  "marshal_pointer (Some (- 5 :: Big)) = JHex (- 5)"
  "unmarshal_big (JHex (- 5)) =
     Inl (DecodeError
       ''json: cannot unmarshal hex string without 0x prefix into Go value of type *hexutil.Big'')"
  "unmarshal_big (JHex (2 ^ 256)) =
     Inl (DecodeError
       ''json: cannot unmarshal hex number > 256 bits into Go value of type *hexutil.Big'')"
  "unmarshal_big (JHex (2 ^ 256 - 1)) = Inr (Some (2 ^ 256 - 1))"
  by simp_all

subsection \<open>C3: a failure of the transport\<close>

text \<open>
  Claim C3, as the code has it. If the transport fails the call of an operation with
  the error \<open>e\<close>, having left \<open>h\<close> in the holder, the operation returns \<open>e\<close> itself as
  its error, after that single call and with the node in the state the transport left
  it in. The value returned with it is nil for the eight operations that say
  \<^verbatim>\<open>return nil, err\<close>, and the holder \<open>h\<close> as the transport left it for the nine that say
  \<^verbatim>\<open>return r, err\<close>.
\<close>

theorem failure_propagated:
  "(into_UintPtr (client (pool s)) ctx None ''eth_getBlockTransactionCountByNumber''
          [AString blockNr] (net s) = ((Some e, hCount), n') \<longrightarrow>
      GetBlockTransactionCountByNumber ctx blockNr s =
        ((None, Some e),
         s\<lparr>calls := calls s @ [\<lparr>callctx = ctx, method_name = ''eth_getBlockTransactionCountByNumber'',
                                 params = [AString blockNr]\<rparr>],
           net := n'\<rparr>)) \<and>
   (into_UintPtr (client (pool s)) ctx None ''eth_getBlockTransactionCountByHash''
          [AHash blockHash] (net s) = ((Some e, hCount), n') \<longrightarrow>
      GetBlockTransactionCountByHash ctx blockHash s =
        ((None, Some e),
         s\<lparr>calls := calls s @ [\<lparr>callctx = ctx, method_name = ''eth_getBlockTransactionCountByHash'',
                                 params = [AHash blockHash]\<rparr>],
           net := n'\<rparr>)) \<and>
   (into_TxPtr (client (pool s)) ctx None ''eth_getTransactionByBlockNumberAndIndex''
          [AString blockNr, AUint index] (net s) = ((Some e, hTx), n') \<longrightarrow>
      GetTransactionByBlockNumberAndIndex ctx blockNr index s =
        ((None, Some e),
         s\<lparr>calls := calls s @ [\<lparr>callctx = ctx, method_name = ''eth_getTransactionByBlockNumberAndIndex'',
                                 params = [AString blockNr, AUint index]\<rparr>],
           net := n'\<rparr>)) \<and>
   (into_TxPtr (client (pool s)) ctx None ''eth_getTransactionByBlockNumberAndIndex''
          [AHash blockHash, AUint index] (net s) = ((Some e, hTx), n') \<longrightarrow>
      GetTransactionByBlockHashAndIndex ctx blockHash index s =
        ((None, Some e),
         s\<lparr>calls := calls s @ [\<lparr>callctx = ctx, method_name = ''eth_getTransactionByBlockNumberAndIndex'',
                                 params = [AHash blockHash, AUint index]\<rparr>],
           net := n'\<rparr>)) \<and>
   (into_Bytes (client (pool s)) ctx NilSlice ''eth_getRawTransactionByBlockNumberAndIndex''
          [AString blockNr, AUint index] (net s) = ((Some e, hBytes), n') \<longrightarrow>
      GetRawTransactionByBlockNumberAndIndex ctx blockNr index s =
        ((hBytes, Some e),
         s\<lparr>calls := calls s @ [\<lparr>callctx = ctx, method_name = ''eth_getRawTransactionByBlockNumberAndIndex'',
                                 params = [AString blockNr, AUint index]\<rparr>],
           net := n'\<rparr>)) \<and>
   (into_Bytes (client (pool s)) ctx NilSlice ''eth_getRawTransactionByBlockHashAndIndex''
          [AHash blockHash, AUint index] (net s) = ((Some e, hBytes), n') \<longrightarrow>
      GetRawTransactionByBlockHashAndIndex ctx blockHash index s =
        ((hBytes, Some e),
         s\<lparr>calls := calls s @ [\<lparr>callctx = ctx, method_name = ''eth_getRawTransactionByBlockHashAndIndex'',
                                 params = [AHash blockHash, AUint index]\<rparr>],
           net := n'\<rparr>)) \<and>
   (into_Uint64Ptr (client (pool s)) ctx None ''eth_getTransactionCount''
          [AAddress address, AString blockNr] (net s) = ((Some e, hNonce), n') \<longrightarrow>
      GetTransactionCount ctx address blockNr s =
        ((None, Some e),
         s\<lparr>calls := calls s @ [\<lparr>callctx = ctx, method_name = ''eth_getTransactionCount'',
                                 params = [AAddress address, AString blockNr]\<rparr>],
           net := n'\<rparr>)) \<and>
   (into_TxPtr (client (pool s)) ctx None ''eth_getTransactionByHash''
          [AHash hash] (net s) = ((Some e, hTx), n') \<longrightarrow>
      GetTransactionByHash ctx hash s =
        ((None, Some e),
         s\<lparr>calls := calls s @ [\<lparr>callctx = ctx, method_name = ''eth_getTransactionByHash'',
                                 params = [AHash hash]\<rparr>],
           net := n'\<rparr>)) \<and>
   (into_Bytes (client (pool s)) ctx NilSlice ''eth_getRawTransactionByHash''
          [AHash hash] (net s) = ((Some e, hBytes), n') \<longrightarrow>
      GetRawTransactionByHash ctx hash s =
        ((hBytes, Some e),
         s\<lparr>calls := calls s @ [\<lparr>callctx = ctx, method_name = ''eth_getRawTransactionByHash'',
                                 params = [AHash hash]\<rparr>],
           net := n'\<rparr>)) \<and>
   (into_Map (client (pool s)) ctx NilMap ''eth_getTransactionReceipt''
          [AHash hash] (net s) = ((Some e, hMap), n') \<longrightarrow>
      GetTransactionReceipt ctx hash s =
        ((hMap, Some e),
         s\<lparr>calls := calls s @ [\<lparr>callctx = ctx, method_name = ''eth_getTransactionReceipt'',
                                 params = [AHash hash]\<rparr>],
           net := n'\<rparr>)) \<and>
   (into_Hash (client (pool s)) ctx 0 ''eth_sendTransaction''
          [ASendTxArgs args] (net s) = ((Some e, hHash), n') \<longrightarrow>
      SendTransaction ctx args s =
        ((hHash, Some e),
         s\<lparr>calls := calls s @ [\<lparr>callctx = ctx, method_name = ''eth_sendTransaction'',
                                 params = [ASendTxArgs args]\<rparr>],
           net := n'\<rparr>)) \<and>
   (into_Hash (client (pool s)) ctx 0 ''eth_sendRawTransaction''
          [ABytes encodedTx] (net s) = ((Some e, hHash), n') \<longrightarrow>
      SendRawTransaction ctx encodedTx s =
        ((hHash, Some e),
         s\<lparr>calls := calls s @ [\<lparr>callctx = ctx, method_name = ''eth_sendRawTransaction'',
                                 params = [ABytes encodedTx]\<rparr>],
           net := n'\<rparr>)) \<and>
   (into_Bytes (client (pool s)) ctx NilSlice ''eth_sign''
          [AAddress addr, ABytes data] (net s) = ((Some e, hBytes), n') \<longrightarrow>
      Sign ctx addr data s =
        ((NilSlice, Some e),
         s\<lparr>calls := calls s @ [\<lparr>callctx = ctx, method_name = ''eth_sign'',
                                 params = [AAddress addr, ABytes data]\<rparr>],
           net := n'\<rparr>)) \<and>
   (into_Hash (client (pool s)) ctx 0 ''eth_resend''
          [ASendTxArgs sendArgs, ABig gasPrice, ABig gasLimit] (net s) = ((Some e, hHash), n') \<longrightarrow>
      Resend ctx sendArgs gasPrice gasLimit s =
        ((hHash, Some e),
         s\<lparr>calls := calls s @ [\<lparr>callctx = ctx, method_name = ''eth_resend'',
                                 params = [ASendTxArgs sendArgs, ABig gasPrice, ABig gasLimit]\<rparr>],
           net := n'\<rparr>)) \<and>
   (into_SignTxPtr (client (pool s)) ctx None ''eth_signTransaction''
          [ASendTxArgs args] (net s) = ((Some e, hSignTx), n') \<longrightarrow>
      SignTransaction ctx args s =
        ((None, Some e),
         s\<lparr>calls := calls s @ [\<lparr>callctx = ctx, method_name = ''eth_signTransaction'',
                                 params = [ASendTxArgs args]\<rparr>],
           net := n'\<rparr>)) \<and>
   (into_Bytes (client (pool s)) ctx NilSlice ''eth_getRawTransactionByHash''
          [AHash hash] (net s) = ((Some e, hBytes), n') \<longrightarrow>
      GetRawTransaction ctx hash s =
        ((hBytes, Some e),
         s\<lparr>calls := calls s @ [\<lparr>callctx = ctx, method_name = ''eth_getRawTransactionByHash'',
                                 params = [AHash hash]\<rparr>],
           net := n'\<rparr>)) \<and>
   (into_Txs (client (pool s)) ctx NilSlice ''eth_pendingTransactions''
          [] (net s) = ((Some e, hTxs), n') \<longrightarrow>
      PendingTransactions ctx s =
        ((hTxs, Some e),
         s\<lparr>calls := calls s @ [\<lparr>callctx = ctx, method_name = ''eth_pendingTransactions'',
                                 params = []\<rparr>],
           net := n'\<rparr>))"
  by (simp add: GetBlockTransactionCountByNumber_run
        GetBlockTransactionCountByHash_run
        GetTransactionByBlockNumberAndIndex_run
        GetTransactionByBlockHashAndIndex_run
        GetRawTransactionByBlockNumberAndIndex_run
        GetRawTransactionByBlockHashAndIndex_run
        GetTransactionCount_run
        GetTransactionByHash_run
        GetRawTransactionByHash_run
        GetTransactionReceipt_run
        SendTransaction_run
        SendRawTransaction_run
        Sign_run
        Resend_run
        SignTransaction_run
        GetRawTransaction_run
        PendingTransactions_run)

text \<open>
  The theorem on a transport that fails every call with \<open>mismatch\<close> after it has
  written to the holder: each hypothesis holds there, and each operation returns what
  the theorem says.
\<close>

theorem failure_propagated_witness:
  "into_UintPtr (client (pool garbling)) (Ctx 1) None ''eth_getBlockTransactionCountByNumber''
      [AString ''pending''] (net garbling) =
     ((Some mismatch, Some 7), 1) \<and>
   GetBlockTransactionCountByNumber (Ctx 1) ''pending'' garbling =
     ((None, Some mismatch),
      garbling\<lparr>calls := [\<lparr>callctx = Ctx 1, method_name = ''eth_getBlockTransactionCountByNumber'',
                            params = [AString ''pending'']\<rparr>],
        net := 1\<rparr>) \<and>
   into_UintPtr (client (pool garbling)) (Ctx 1) None ''eth_getBlockTransactionCountByHash''
      [AHash 0xB10C] (net garbling) =
     ((Some mismatch, Some 7), 1) \<and>
   GetBlockTransactionCountByHash (Ctx 1) 0xB10C garbling =
     ((None, Some mismatch),
      garbling\<lparr>calls := [\<lparr>callctx = Ctx 1, method_name = ''eth_getBlockTransactionCountByHash'',
                            params = [AHash 0xB10C]\<rparr>],
        net := 1\<rparr>) \<and>
   into_TxPtr (client (pool garbling)) (Ctx 1) None ''eth_getTransactionByBlockNumberAndIndex''
      [AString ''pending'', AUint 2] (net garbling) =
     ((Some mismatch, Some pending_creation), 1) \<and>
   GetTransactionByBlockNumberAndIndex (Ctx 1) ''pending'' 2 garbling =
     ((None, Some mismatch),
      garbling\<lparr>calls := [\<lparr>callctx = Ctx 1, method_name = ''eth_getTransactionByBlockNumberAndIndex'',
                            params = [AString ''pending'', AUint 2]\<rparr>],
        net := 1\<rparr>) \<and>
   into_TxPtr (client (pool garbling)) (Ctx 1) None ''eth_getTransactionByBlockNumberAndIndex''
      [AHash 0xB10C, AUint 2] (net garbling) =
     ((Some mismatch, Some pending_creation), 1) \<and>
   GetTransactionByBlockHashAndIndex (Ctx 1) 0xB10C 2 garbling =
     ((None, Some mismatch),
      garbling\<lparr>calls := [\<lparr>callctx = Ctx 1, method_name = ''eth_getTransactionByBlockNumberAndIndex'',
                            params = [AHash 0xB10C, AUint 2]\<rparr>],
        net := 1\<rparr>) \<and>
   into_Bytes (client (pool garbling)) (Ctx 1) NilSlice ''eth_getRawTransactionByBlockNumberAndIndex''
      [AString ''pending'', AUint 2] (net garbling) =
     ((Some mismatch, Slice [1]), 1) \<and>
   GetRawTransactionByBlockNumberAndIndex (Ctx 1) ''pending'' 2 garbling =
     ((Slice [1], Some mismatch),
      garbling\<lparr>calls := [\<lparr>callctx = Ctx 1, method_name = ''eth_getRawTransactionByBlockNumberAndIndex'',
                            params = [AString ''pending'', AUint 2]\<rparr>],
        net := 1\<rparr>) \<and>
   into_Bytes (client (pool garbling)) (Ctx 1) NilSlice ''eth_getRawTransactionByBlockHashAndIndex''
      [AHash 0xB10C, AUint 2] (net garbling) =
     ((Some mismatch, Slice [1]), 1) \<and>
   GetRawTransactionByBlockHashAndIndex (Ctx 1) 0xB10C 2 garbling =
     ((Slice [1], Some mismatch),
      garbling\<lparr>calls := [\<lparr>callctx = Ctx 1, method_name = ''eth_getRawTransactionByBlockHashAndIndex'',
                            params = [AHash 0xB10C, AUint 2]\<rparr>],
        net := 1\<rparr>) \<and>
   into_Uint64Ptr (client (pool garbling)) (Ctx 1) None ''eth_getTransactionCount''
      [AAddress 0x11, AString ''pending''] (net garbling) =
     ((Some mismatch, Some 7), 1) \<and>
   GetTransactionCount (Ctx 1) 0x11 ''pending'' garbling =
     ((None, Some mismatch),
      garbling\<lparr>calls := [\<lparr>callctx = Ctx 1, method_name = ''eth_getTransactionCount'',
                            params = [AAddress 0x11, AString ''pending'']\<rparr>],
        net := 1\<rparr>) \<and>
   into_TxPtr (client (pool garbling)) (Ctx 1) None ''eth_getTransactionByHash''
      [AHash 0xAB] (net garbling) =
     ((Some mismatch, Some pending_creation), 1) \<and>
   GetTransactionByHash (Ctx 1) 0xAB garbling =
     ((None, Some mismatch),
      garbling\<lparr>calls := [\<lparr>callctx = Ctx 1, method_name = ''eth_getTransactionByHash'',
                            params = [AHash 0xAB]\<rparr>],
        net := 1\<rparr>) \<and>
   into_Bytes (client (pool garbling)) (Ctx 1) NilSlice ''eth_getRawTransactionByHash''
      [AHash 0xAB] (net garbling) =
     ((Some mismatch, Slice [1]), 1) \<and>
   GetRawTransactionByHash (Ctx 1) 0xAB garbling =
     ((Slice [1], Some mismatch),
      garbling\<lparr>calls := [\<lparr>callctx = Ctx 1, method_name = ''eth_getRawTransactionByHash'',
                            params = [AHash 0xAB]\<rparr>],
        net := 1\<rparr>) \<and>
   into_Map (client (pool garbling)) (Ctx 1) NilMap ''eth_getTransactionReceipt''
      [AHash 0xAB] (net garbling) =
     ((Some mismatch, Map [(''status'', IString ''0x1'')]), 1) \<and>
   GetTransactionReceipt (Ctx 1) 0xAB garbling =
     ((Map [(''status'', IString ''0x1'')], Some mismatch),
      garbling\<lparr>calls := [\<lparr>callctx = Ctx 1, method_name = ''eth_getTransactionReceipt'',
                            params = [AHash 0xAB]\<rparr>],
        net := 1\<rparr>) \<and>
   into_Hash (client (pool garbling)) (Ctx 1) 0 ''eth_sendTransaction''
      [ASendTxArgs transfer] (net garbling) =
     ((Some mismatch, 0xAB), 1) \<and>
   SendTransaction (Ctx 1) transfer garbling =
     ((0xAB, Some mismatch),
      garbling\<lparr>calls := [\<lparr>callctx = Ctx 1, method_name = ''eth_sendTransaction'',
                            params = [ASendTxArgs transfer]\<rparr>],
        net := 1\<rparr>) \<and>
   into_Hash (client (pool garbling)) (Ctx 1) 0 ''eth_sendRawTransaction''
      [ABytes (Slice [0xF8])] (net garbling) =
     ((Some mismatch, 0xAB), 1) \<and>
   SendRawTransaction (Ctx 1) (Slice [0xF8]) garbling =
     ((0xAB, Some mismatch),
      garbling\<lparr>calls := [\<lparr>callctx = Ctx 1, method_name = ''eth_sendRawTransaction'',
                            params = [ABytes (Slice [0xF8])]\<rparr>],
        net := 1\<rparr>) \<and>
   into_Bytes (client (pool garbling)) (Ctx 1) NilSlice ''eth_sign''
      [AAddress 0x11, ABytes (Slice [0x68, 0x69])] (net garbling) =
     ((Some mismatch, Slice [1]), 1) \<and>
   Sign (Ctx 1) 0x11 (Slice [0x68, 0x69]) garbling =
     ((NilSlice, Some mismatch),
      garbling\<lparr>calls := [\<lparr>callctx = Ctx 1, method_name = ''eth_sign'',
                            params = [AAddress 0x11, ABytes (Slice [0x68, 0x69])]\<rparr>],
        net := 1\<rparr>) \<and>
   into_Hash (client (pool garbling)) (Ctx 1) 0 ''eth_resend''
      [ASendTxArgs transfer, ABig 2, ABig 30000] (net garbling) =
     ((Some mismatch, 0xAB), 1) \<and>
   Resend (Ctx 1) transfer 2 30000 garbling =
     ((0xAB, Some mismatch),
      garbling\<lparr>calls := [\<lparr>callctx = Ctx 1, method_name = ''eth_resend'',
                            params = [ASendTxArgs transfer, ABig 2, ABig 30000]\<rparr>],
        net := 1\<rparr>) \<and>
   into_SignTxPtr (client (pool garbling)) (Ctx 1) None ''eth_signTransaction''
      [ASendTxArgs transfer] (net garbling) =
     ((Some mismatch, Some \<lparr>Raw = Slice [1], Tx = None\<rparr>), 1) \<and>
   SignTransaction (Ctx 1) transfer garbling =
     ((None, Some mismatch),
      garbling\<lparr>calls := [\<lparr>callctx = Ctx 1, method_name = ''eth_signTransaction'',
                            params = [ASendTxArgs transfer]\<rparr>],
        net := 1\<rparr>) \<and>
   into_Bytes (client (pool garbling)) (Ctx 1) NilSlice ''eth_getRawTransactionByHash''
      [AHash 0xAB] (net garbling) =
     ((Some mismatch, Slice [1]), 1) \<and>
   GetRawTransaction (Ctx 1) 0xAB garbling =
     ((Slice [1], Some mismatch),
      garbling\<lparr>calls := [\<lparr>callctx = Ctx 1, method_name = ''eth_getRawTransactionByHash'',
                            params = [AHash 0xAB]\<rparr>],
        net := 1\<rparr>) \<and>
   into_Txs (client (pool garbling)) (Ctx 1) NilSlice ''eth_pendingTransactions''
      [] (net garbling) =
     ((Some mismatch, Slice [Some pending_creation]), 1) \<and>
   PendingTransactions (Ctx 1) garbling =
     ((Slice [Some pending_creation], Some mismatch),
      garbling\<lparr>calls := [\<lparr>callctx = Ctx 1, method_name = ''eth_pendingTransactions'',
                            params = []\<rparr>],
        net := 1\<rparr>)"
  using failure_propagated
    [where s = garbling
       and ctx = "Ctx 1"
       and e = mismatch
       and n' = 1
       and blockNr = "''pending''"
       and blockHash = "0xB10C"
       and index = "2"
       and address = "0x11"
       and addr = "0x11"
       and hash = "0xAB"
       and args = "transfer"
       and sendArgs = "transfer"
       and encodedTx = "(Slice [0xF8])"
       and data = "(Slice [0x68, 0x69])"
       and gasPrice = "2"
       and gasLimit = "30000"
       and hCount = "Some 7"
       and hNonce = "Some 7"
       and hTx = "Some pending_creation"
       and hSignTx = "Some \<lparr>Raw = Slice [1], Tx = None\<rparr>"
       and hBytes = "Slice [1]"
       and hHash = "0xAB"
       and hMap = "Map [(''status'', IString ''0x1'')]"
       and hTxs = "Slice [Some pending_creation]"]
  by (simp add: garbling_def start_def half_decoded_def NewPublicTransactionPool_def)

text \<open>
  Claim C3 as it is written says that no partial result is populated in the value
  returned with an error. It is for \<^verbatim>\<open>PendingTransactions\<close> on that transport: the list the
  transport had begun to fill comes back with the error.
\<close>

theorem partial_result_counterexample:
  "into_Txs (client (pool garbling)) (Ctx 1) NilSlice ''eth_pendingTransactions''
      [] (net garbling) =
     ((Some mismatch, Slice [Some pending_creation]), 1) \<and>
   fst (PendingTransactions (Ctx 1) garbling) =
     (Slice [Some pending_creation], Some mismatch) \<and>
   fst (fst (PendingTransactions (Ctx 1) garbling)) \<noteq> NilSlice"
  by (simp add: PendingTransactions_def CallContext_def garbling_def start_def
        half_decoded_def NewPublicTransactionPool_def)

text \<open>
  The scenario of the locked account: the node refuses with a JSON-RPC error object, and
  \<^verbatim>\<open>Sign\<close> returns that error and no signature bytes.
\<close>

lemma Sign_locked_account:
  "fst (Sign (Ctx 1) 0x11 (Slice [0x68, 0x69]) refusing) = (NilSlice, Some locked_account)"
  by (simp add: Sign_result refusing_def start_def failing_def NewPublicTransactionPool_def)

subsection \<open>C4: a count that is \<^verbatim>\<open>null\<close>\<close>

text \<open>
  Claim C4. A result of \<^verbatim>\<open>null\<close> is decoded into the holder \<^verbatim>\<open>*hexutil.Uint\<close> as the nil
  pointer, with no error: the transport answers \<open>(None, None)\<close>. Then each of the two
  operations that count the transactions of a block returns the nil pointer and no
  error: no count, which is not the count zero.
\<close>

theorem null_count_is_no_count:
  "(fst (into_UintPtr (client (pool s)) ctx None ''eth_getBlockTransactionCountByNumber''
           [AString blockNr] (net s)) = (None, None) \<longrightarrow>
      fst (GetBlockTransactionCountByNumber ctx blockNr s) = (None, None) \<and>
      fst (fst (GetBlockTransactionCountByNumber ctx blockNr s)) \<noteq> Some 0) \<and>
   (fst (into_UintPtr (client (pool s)) ctx None ''eth_getBlockTransactionCountByHash''
           [AHash blockHash] (net s)) = (None, None) \<longrightarrow>
      fst (GetBlockTransactionCountByHash ctx blockHash s) = (None, None) \<and>
      fst (fst (GetBlockTransactionCountByHash ctx blockHash s)) \<noteq> Some 0)"
  by (simp add: GetBlockTransactionCountByNumber_result GetBlockTransactionCountByHash_result)

text \<open>The theorem on the node that answers \<^verbatim>\<open>null\<close>, for the block tag \<^verbatim>\<open>pending\<close>.\<close>

theorem null_count_is_no_count_witness:
  "fst (into_UintPtr (client (pool serving)) (Ctx 1) None
          ''eth_getBlockTransactionCountByNumber'' [AString ''pending''] (net serving)) =
     (None, None) \<and>
   fst (GetBlockTransactionCountByNumber (Ctx 1) ''pending'' serving) = (None, None) \<and>
   fst (into_UintPtr (client (pool serving)) (Ctx 1) None
          ''eth_getBlockTransactionCountByHash'' [AHash 0xB10C] (net serving)) =
     (None, None) \<and>
   fst (GetBlockTransactionCountByHash (Ctx 1) 0xB10C serving) = (None, None)"
  using null_count_is_no_count
    [where s = serving and ctx = "Ctx 1" and blockNr = "''pending''" and blockHash = "0xB10C"]
  by (simp add: serving_def start_def answering_def NewPublicTransactionPool_def)

subsection \<open>C5: the order of the arguments\<close>

text \<open>
  Claim C5. Each operation with more than one argument hands them to the transport in
  the order of its own parameters: block tag then index, block hash then index, address
  then block tag, address then message, submission then gas price then gas limit.
\<close>

theorem arguments_in_order:
  "map params (calls (snd (GetTransactionByBlockNumberAndIndex ctx blockNr index s))) =
     map params (calls s) @ [[AString blockNr, AUint index]] \<and>
   map params (calls (snd (GetTransactionByBlockHashAndIndex ctx blockHash index s))) =
     map params (calls s) @ [[AHash blockHash, AUint index]] \<and>
   map params (calls (snd (GetRawTransactionByBlockNumberAndIndex ctx blockNr index s))) =
     map params (calls s) @ [[AString blockNr, AUint index]] \<and>
   map params (calls (snd (GetRawTransactionByBlockHashAndIndex ctx blockHash index s))) =
     map params (calls s) @ [[AHash blockHash, AUint index]] \<and>
   map params (calls (snd (GetTransactionCount ctx address blockNr s))) =
     map params (calls s) @ [[AAddress address, AString blockNr]] \<and>
   map params (calls (snd (Sign ctx addr data s))) =
     map params (calls s) @ [[AAddress addr, ABytes data]] \<and>
   map params (calls (snd (Resend ctx sendArgs gasPrice gasLimit s))) =
     map params (calls s) @ [[ASendTxArgs sendArgs, ABig gasPrice, ABig gasLimit]]"
  by (simp add: GetTransactionByBlockNumberAndIndex_calls
        GetTransactionByBlockHashAndIndex_calls
        GetRawTransactionByBlockNumberAndIndex_calls
        GetRawTransactionByBlockHashAndIndex_calls
        GetTransactionCount_calls
        Sign_calls
        Resend_calls)

subsection \<open>C6: no pending transactions\<close>

text \<open>
  Claim C6. An empty JSON array is decoded into the holder \<^verbatim>\<open>[]*RPCTransaction\<close> as an
  empty slice that is not nil, with no error: the transport answers \<open>(None, Slice [])\<close>.
  Then \<^verbatim>\<open>PendingTransactions\<close> returns that empty slice, not the nil slice, and no error.
\<close>

theorem empty_array_is_empty_sequence:
  assumes "fst (into_Txs (client (pool s)) ctx NilSlice ''eth_pendingTransactions'' [] (net s)) =
             (None, Slice [])"
  shows "fst (PendingTransactions ctx s) = (Slice [], None) \<and>
         fst (fst (PendingTransactions ctx s)) \<noteq> NilSlice"
  using assms by (simp add: PendingTransactions_result)

text \<open>The theorem on the node that has no pending transactions.\<close>

theorem empty_array_is_empty_sequence_witness:
  "fst (into_Txs (client (pool serving)) (Ctx 1) NilSlice ''eth_pendingTransactions'' []
          (net serving)) = (None, Slice []) \<and>
   fst (PendingTransactions (Ctx 1) serving) = (Slice [], None)"
proof -
  have h: "fst (into_Txs (client (pool serving)) (Ctx 1) NilSlice
                  ''eth_pendingTransactions'' [] (net serving)) = (None, Slice [])"
    by (simp add: serving_def start_def answering_def NewPublicTransactionPool_def)
  from empty_array_is_empty_sequence[OF h] h show ?thesis by simp
qed

subsection \<open>C7: the hash of a raw submission\<close>

text \<open>
  Claim C7. If the transport answers the submission of a raw transaction with the
  32-byte hash \<open>h\<close> and no error, \<^verbatim>\<open>SendRawTransaction\<close> returns \<open>h\<close>, unchanged, and no
  error.
\<close>

theorem SendRawTransaction_returns_hash:
  assumes "fst (into_Hash (client (pool s)) ctx 0 ''eth_sendRawTransaction''
                  [ABytes encodedTx] (net s)) = (None, h)"
  shows "fst (SendRawTransaction ctx encodedTx s) = (h, None)"
  using assms by (simp add: SendRawTransaction_result)

text \<open>The theorem on the node that answers with the hash \<^verbatim>\<open>0xaa...aa\<close>.\<close>

theorem SendRawTransaction_returns_hash_witness:
  "fst (into_Hash (client (pool serving)) (Ctx 1) 0 ''eth_sendRawTransaction''
          [ABytes (Slice [0xF8])] (net serving)) =
     (None, 0xaaaaaaaaaaaaaaaaaaaaaaaaaaaaaaaaaaaaaaaaaaaaaaaaaaaaaaaaaaaaaaaa) \<and>
   fst (SendRawTransaction (Ctx 1) (Slice [0xF8]) serving) =
     (0xaaaaaaaaaaaaaaaaaaaaaaaaaaaaaaaaaaaaaaaaaaaaaaaaaaaaaaaaaaaaaaaa, None)"
proof -
  have h: "fst (into_Hash (client (pool serving)) (Ctx 1) 0 ''eth_sendRawTransaction''
                  [ABytes (Slice [0xF8])] (net serving)) =
             (None, 0xaaaaaaaaaaaaaaaaaaaaaaaaaaaaaaaaaaaaaaaaaaaaaaaaaaaaaaaaaaaaaaaa)"
    by (simp add: serving_def start_def answering_def NewPublicTransactionPool_def)
  from SendRawTransaction_returns_hash[OF h] h show ?thesis by simp
qed

subsection \<open>C8: one call, and nothing else\<close>

text \<open>
  Claim C8. Every operation makes exactly one call to the transport and leaves the
  calls made before as they were; the facade object, whose only field is the client,
  is the same afterwards; and the operation's result and the node's new state depend
  on nothing but the client, the arguments and the node.
\<close>

theorem one_call_and_no_local_state:
  "single_call (GetBlockTransactionCountByNumber ctx blockNr) s cs \<and>
   single_call (GetBlockTransactionCountByHash ctx blockHash) s cs \<and>
   single_call (GetTransactionByBlockNumberAndIndex ctx blockNr index) s cs \<and>
   single_call (GetTransactionByBlockHashAndIndex ctx blockHash index) s cs \<and>
   single_call (GetRawTransactionByBlockNumberAndIndex ctx blockNr index) s cs \<and>
   single_call (GetRawTransactionByBlockHashAndIndex ctx blockHash index) s cs \<and>
   single_call (GetTransactionCount ctx address blockNr) s cs \<and>
   single_call (GetTransactionByHash ctx hash) s cs \<and>
   single_call (GetRawTransactionByHash ctx hash) s cs \<and>
   single_call (GetTransactionReceipt ctx hash) s cs \<and>
   single_call (SendTransaction ctx args) s cs \<and>
   single_call (SendRawTransaction ctx encodedTx) s cs \<and>
   single_call (Sign ctx addr data) s cs \<and>
   single_call (Resend ctx sendArgs gasPrice gasLimit) s cs \<and>
   single_call (SignTransaction ctx args) s cs \<and>
   single_call (GetRawTransaction ctx hash) s cs \<and>
   single_call (PendingTransactions ctx) s cs"
  unfolding single_call_def
  by (simp add: GetBlockTransactionCountByNumber_calls GetBlockTransactionCountByNumber_pool GetBlockTransactionCountByNumber_net GetBlockTransactionCountByNumber_result
        GetBlockTransactionCountByHash_calls GetBlockTransactionCountByHash_pool GetBlockTransactionCountByHash_net GetBlockTransactionCountByHash_result
        GetTransactionByBlockNumberAndIndex_calls GetTransactionByBlockNumberAndIndex_pool GetTransactionByBlockNumberAndIndex_net GetTransactionByBlockNumberAndIndex_result
        GetTransactionByBlockHashAndIndex_calls GetTransactionByBlockHashAndIndex_pool GetTransactionByBlockHashAndIndex_net GetTransactionByBlockHashAndIndex_result
        GetRawTransactionByBlockNumberAndIndex_calls GetRawTransactionByBlockNumberAndIndex_pool GetRawTransactionByBlockNumberAndIndex_net GetRawTransactionByBlockNumberAndIndex_result
        GetRawTransactionByBlockHashAndIndex_calls GetRawTransactionByBlockHashAndIndex_pool GetRawTransactionByBlockHashAndIndex_net GetRawTransactionByBlockHashAndIndex_result
        GetTransactionCount_calls GetTransactionCount_pool GetTransactionCount_net GetTransactionCount_result
        GetTransactionByHash_calls GetTransactionByHash_pool GetTransactionByHash_net GetTransactionByHash_result
        GetRawTransactionByHash_calls GetRawTransactionByHash_pool GetRawTransactionByHash_net GetRawTransactionByHash_result
        GetTransactionReceipt_calls GetTransactionReceipt_pool GetTransactionReceipt_net GetTransactionReceipt_result
        SendTransaction_calls SendTransaction_pool SendTransaction_net SendTransaction_result
        SendRawTransaction_calls SendRawTransaction_pool SendRawTransaction_net SendRawTransaction_result
        Sign_calls Sign_pool Sign_net Sign_result
        Resend_calls Resend_pool Resend_net Resend_result
        SignTransaction_calls SignTransaction_pool SignTransaction_net SignTransaction_result
        GetRawTransaction_calls GetRawTransaction_pool GetRawTransaction_net GetRawTransaction_result
        PendingTransactions_calls PendingTransactions_pool PendingTransactions_net PendingTransactions_result)

subsection \<open>C9: \<^verbatim>\<open>GetRawTransaction\<close>\<close>

text \<open>
  Claim C9. \<^verbatim>\<open>GetRawTransaction\<close>, which the interface does not declare, is
  \<^verbatim>\<open>GetRawTransactionByHash\<close>: for every context, hash, client and state, the two return
  the same bytes and error and leave the same state, and the call each makes is
  \<^verbatim>\<open>eth_getRawTransactionByHash\<close> with the hash as its only argument.
\<close>

theorem GetRawTransaction_is_GetRawTransactionByHash:
  "GetRawTransaction ctx hash s = GetRawTransactionByHash ctx hash s \<and>
   calls (snd (GetRawTransaction ctx hash s)) =
     calls s @ [\<lparr>callctx = ctx, method_name = ''eth_getRawTransactionByHash'', params = [AHash hash]\<rparr>] \<and>
   calls (snd (GetRawTransactionByHash ctx hash s)) =
     calls s @ [\<lparr>callctx = ctx, method_name = ''eth_getRawTransactionByHash'', params = [AHash hash]\<rparr>]"
  by (simp add: GetRawTransaction_calls GetRawTransactionByHash_calls)
     (simp add: GetRawTransaction_def GetRawTransactionByHash_def)

subsection \<open>C10: the value that comes with an error\<close>

text \<open>
  Claim C10. For the eight operations it lists (the six that return a pointer to a
  count or to a transaction, \<^verbatim>\<open>Sign\<close> and \<^verbatim>\<open>SignTransaction\<close>), an error that is not nil
  comes with a nil value, whatever the transport did. The three operations that return
  a hash and the one that returns a map return the holder as the transport left it,
  with the transport's error, in every case.
\<close>

theorem nil_on_error_or_holder_as_is:
  "(snd (fst (GetBlockTransactionCountByNumber ctx blockNr s)) \<noteq> None \<longrightarrow>
      fst (fst (GetBlockTransactionCountByNumber ctx blockNr s)) = None) \<and>
   (snd (fst (GetBlockTransactionCountByHash ctx blockHash s)) \<noteq> None \<longrightarrow>
      fst (fst (GetBlockTransactionCountByHash ctx blockHash s)) = None) \<and>
   (snd (fst (GetTransactionByBlockNumberAndIndex ctx blockNr index s)) \<noteq> None \<longrightarrow>
      fst (fst (GetTransactionByBlockNumberAndIndex ctx blockNr index s)) = None) \<and>
   (snd (fst (GetTransactionByBlockHashAndIndex ctx blockHash index s)) \<noteq> None \<longrightarrow>
      fst (fst (GetTransactionByBlockHashAndIndex ctx blockHash index s)) = None) \<and>
   (snd (fst (GetTransactionCount ctx address blockNr s)) \<noteq> None \<longrightarrow>
      fst (fst (GetTransactionCount ctx address blockNr s)) = None) \<and>
   (snd (fst (GetTransactionByHash ctx hash s)) \<noteq> None \<longrightarrow>
      fst (fst (GetTransactionByHash ctx hash s)) = None) \<and>
   (snd (fst (Sign ctx addr data s)) \<noteq> None \<longrightarrow>
      fst (fst (Sign ctx addr data s)) = NilSlice) \<and>
   (snd (fst (SignTransaction ctx args s)) \<noteq> None \<longrightarrow>
      fst (fst (SignTransaction ctx args s)) = None) \<and>
   fst (GetTransactionReceipt ctx hash s) =
     prod.swap (fst (into_Map (client (pool s)) ctx NilMap ''eth_getTransactionReceipt''
          [AHash hash] (net s))) \<and>
   fst (SendTransaction ctx args s) =
     prod.swap (fst (into_Hash (client (pool s)) ctx 0 ''eth_sendTransaction''
          [ASendTxArgs args] (net s))) \<and>
   fst (SendRawTransaction ctx encodedTx s) =
     prod.swap (fst (into_Hash (client (pool s)) ctx 0 ''eth_sendRawTransaction''
          [ABytes encodedTx] (net s))) \<and>
   fst (Resend ctx sendArgs gasPrice gasLimit s) =
     prod.swap (fst (into_Hash (client (pool s)) ctx 0 ''eth_resend''
          [ASendTxArgs sendArgs, ABig gasPrice, ABig gasLimit] (net s)))"
  by (auto simp: GetBlockTransactionCountByNumber_result
        GetBlockTransactionCountByHash_result
        GetTransactionByBlockNumberAndIndex_result
        GetTransactionByBlockHashAndIndex_result
        GetTransactionCount_result
        GetTransactionByHash_result
        GetTransactionReceipt_result
        SendTransaction_result
        SendRawTransaction_result
        Sign_result
        Resend_result
        SignTransaction_result
        split: prod.splits)

text \<open>
  The theorem on the transport that fails every call after it has written to the
  holder: the eight return nil with the error, the four return what was written.
\<close>

theorem nil_on_error_or_holder_as_is_witness:
  "snd (fst (GetBlockTransactionCountByNumber (Ctx 1) ''pending'' garbling)) \<noteq> None \<and>
   fst (fst (GetBlockTransactionCountByNumber (Ctx 1) ''pending'' garbling)) = None \<and>
   snd (fst (GetBlockTransactionCountByHash (Ctx 1) 0xB10C garbling)) \<noteq> None \<and>
   fst (fst (GetBlockTransactionCountByHash (Ctx 1) 0xB10C garbling)) = None \<and>
   snd (fst (GetTransactionByBlockNumberAndIndex (Ctx 1) ''pending'' 2 garbling)) \<noteq> None \<and>
   fst (fst (GetTransactionByBlockNumberAndIndex (Ctx 1) ''pending'' 2 garbling)) = None \<and>
   snd (fst (GetTransactionByBlockHashAndIndex (Ctx 1) 0xB10C 2 garbling)) \<noteq> None \<and>
   fst (fst (GetTransactionByBlockHashAndIndex (Ctx 1) 0xB10C 2 garbling)) = None \<and>
   snd (fst (GetTransactionCount (Ctx 1) 0x11 ''pending'' garbling)) \<noteq> None \<and>
   fst (fst (GetTransactionCount (Ctx 1) 0x11 ''pending'' garbling)) = None \<and>
   snd (fst (GetTransactionByHash (Ctx 1) 0xAB garbling)) \<noteq> None \<and>
   fst (fst (GetTransactionByHash (Ctx 1) 0xAB garbling)) = None \<and>
   snd (fst (Sign (Ctx 1) 0x11 (Slice [0x68, 0x69]) garbling)) \<noteq> None \<and>
   fst (fst (Sign (Ctx 1) 0x11 (Slice [0x68, 0x69]) garbling)) = NilSlice \<and>
   snd (fst (SignTransaction (Ctx 1) transfer garbling)) \<noteq> None \<and>
   fst (fst (SignTransaction (Ctx 1) transfer garbling)) = None \<and>
   fst (GetTransactionReceipt (Ctx 1) 0xAB garbling) = (Map [(''status'', IString ''0x1'')], Some mismatch) \<and>
   fst (SendTransaction (Ctx 1) transfer garbling) = (0xAB, Some mismatch) \<and>
   fst (SendRawTransaction (Ctx 1) (Slice [0xF8]) garbling) = (0xAB, Some mismatch) \<and>
   fst (Resend (Ctx 1) transfer 2 30000 garbling) = (0xAB, Some mismatch)"
  using nil_on_error_or_holder_as_is
    [where s = garbling
       and ctx = "Ctx 1"
       and blockNr = "''pending''"
       and blockHash = "0xB10C"
       and index = "2"
       and addr = "0x11"
       and hash = "0xAB"
       and args = "transfer"
       and sendArgs = "transfer"
       and encodedTx = "(Slice [0xF8])"
       and data = "(Slice [0x68, 0x69])"
       and gasPrice = "2"
       and gasLimit = "30000"]
  by (simp add: GetBlockTransactionCountByNumber_result
        GetBlockTransactionCountByHash_result
        GetTransactionByBlockNumberAndIndex_result
        GetTransactionByBlockHashAndIndex_result
        GetTransactionCount_result
        GetTransactionByHash_result
        GetTransactionReceipt_result
        SendTransaction_result
        SendRawTransaction_result
        Sign_result
        Resend_result
        SignTransaction_result
        garbling_def start_def half_decoded_def NewPublicTransactionPool_def)

end
